theory Spec2Isabelle
  imports Complex_Main
begin

section \<open>Python values used by the type-detection engine of \<^verbatim>\<open>bot.py\<close>\<close>

text \<open>
  The engine reads two JSON files (\<^verbatim>\<open>keywords.json\<close> and the types store
  \<^verbatim>\<open>config.types_data_json\<close>) and keeps what it read in the module-level dictionary
  \<^verbatim>\<open>_data_cache\<close>. Python is dynamically typed, so a value coming out of
  \<^verbatim>\<open>json.load\<close> is modelled by the datatype \<open>json\<close> and every operation the code
  applies to such a value has an outcome for each constructor: the value, or the
  exception Python raises.

  A character is a code point below 256 and a string a list of them: \<open>str_lower\<close>
  maps \<open>A..Z\<close> to \<open>a..z\<close> and the capital letters \<open>U+00C0..U+00DE\<close> (all but the
  multiplication sign \<open>U+00D7\<close>) to the letter 32 places on, as \<^verbatim>\<open>str.lower\<close> does
  on these code points, and leaves every other character alone; \<open>str_split\<close> splits
  at the twelve code points below 256 for which \<^verbatim>\<open>str.isspace\<close> holds. A Python
  \<^verbatim>\<open>dict\<close> is an association list in insertion order, read with \<open>map_of\<close>; a
  dictionary built by Python holds each key once. A JSON number is an \<^verbatim>\<open>int\<close> or a
  finite \<^verbatim>\<open>float\<close>; the code only tests numbers for being zero.
\<close>

datatype json =
    JNull
  | JBool bool
  | JInt int
  | JFloat real
  | JStr string
  | JArr "json list"
  | JObj "(string \<times> json) list"

datatype py_exception =
    FileNotFoundError
  | JSONDecodeError
  | AttributeError
  | TypeError
  | OtherException

text \<open>Python's truth value of a JSON value (\<^verbatim>\<open>if x\<close>, \<^verbatim>\<open>x and y\<close>).\<close>

fun truthy :: "json \<Rightarrow> bool" where
  "truthy JNull = False"
| "truthy (JBool b) = b"
| "truthy (JInt i) = (i \<noteq> 0)"
| "truthy (JFloat r) = (r \<noteq> 0)"
| "truthy (JStr s) = (s \<noteq> [])"
| "truthy (JArr xs) = (xs \<noteq> [])"
| "truthy (JObj kvs) = (kvs \<noteq> [])"

text \<open>\<^verbatim>\<open>x.get(key, default)\<close>: only a \<^verbatim>\<open>dict\<close> has the method.\<close>

fun json_get :: "json \<Rightarrow> string \<Rightarrow> json \<Rightarrow> py_exception + json" where
  "json_get (JObj kvs) key dflt = Inr (case map_of kvs key of None \<Rightarrow> dflt | Some v \<Rightarrow> v)"
| "json_get _ key dflt = Inl AttributeError"

definition lower_char :: "char \<Rightarrow> char" where
  "lower_char c =
     (case map_of
        (zip (''ABCDEFGHIJKLMNOPQRSTUVWXYZ'' @
              [CHR 0xC0, CHR 0xC1, CHR 0xC2, CHR 0xC3, CHR 0xC4, CHR 0xC5, CHR 0xC6, CHR 0xC7,
               CHR 0xC8, CHR 0xC9, CHR 0xCA, CHR 0xCB, CHR 0xCC, CHR 0xCD, CHR 0xCE, CHR 0xCF,
               CHR 0xD0, CHR 0xD1, CHR 0xD2, CHR 0xD3, CHR 0xD4, CHR 0xD5, CHR 0xD6, CHR 0xD8,
               CHR 0xD9, CHR 0xDA, CHR 0xDB, CHR 0xDC, CHR 0xDD, CHR 0xDE])
             (''abcdefghijklmnopqrstuvwxyz'' @
              [CHR 0xE0, CHR 0xE1, CHR 0xE2, CHR 0xE3, CHR 0xE4, CHR 0xE5, CHR 0xE6, CHR 0xE7,
               CHR 0xE8, CHR 0xE9, CHR 0xEA, CHR 0xEB, CHR 0xEC, CHR 0xED, CHR 0xEE, CHR 0xEF,
               CHR 0xF0, CHR 0xF1, CHR 0xF2, CHR 0xF3, CHR 0xF4, CHR 0xF5, CHR 0xF6, CHR 0xF8,
               CHR 0xF9, CHR 0xFA, CHR 0xFB, CHR 0xFC, CHR 0xFD, CHR 0xFE])) c of
        None \<Rightarrow> c
      | Some l \<Rightarrow> l)"

definition str_lower :: "string \<Rightarrow> string" where
  "str_lower s = map lower_char s"

text \<open>\<^verbatim>\<open>x.lower()\<close>: only a \<^verbatim>\<open>str\<close> has the method.\<close>

fun json_lower :: "json \<Rightarrow> py_exception + string" where
  "json_lower (JStr s) = Inr (str_lower s)"
| "json_lower _ = Inl AttributeError"

definition isspace :: "char \<Rightarrow> bool" where
  "isspace c =
     (c \<in> set [CHR 0x09, CHR 0x0A, CHR 0x0B, CHR 0x0C, CHR 0x0D,
               CHR 0x1C, CHR 0x1D, CHR 0x1E, CHR 0x1F, CHR '' '',
               CHR 0x85, CHR 0xA0])"

text \<open>
  \<^verbatim>\<open>s.split()\<close> with no argument: the maximal runs of characters that are not
  whitespace, in order; \<open>cur\<close> is the run being read.
\<close>

fun split_from :: "string \<Rightarrow> string \<Rightarrow> string list" where
  "split_from cur [] = (if cur = [] then [] else [cur])"
| "split_from cur (c # cs) =
     (if isspace c then (if cur = [] then split_from [] cs else cur # split_from [] cs)
      else split_from (cur @ [c]) cs)"

definition str_split :: "string \<Rightarrow> string list" where
  "str_split s = split_from [] s"

text \<open>
  \<^verbatim>\<open>for x in v\<close>: a list gives its elements, a dict its keys, a string its characters;
  \<^verbatim>\<open>None\<close>, a bool and a number are not iterable.
\<close>

fun py_iter :: "json \<Rightarrow> py_exception + json list" where
  "py_iter (JArr xs) = Inr xs"
| "py_iter (JObj kvs) = Inr (map (\<lambda>kv. JStr (fst kv)) kvs)"
| "py_iter (JStr s) = Inr (map (\<lambda>c. JStr [c]) s)"
| "py_iter _ = Inl TypeError"

text \<open>
  A comprehension \<^verbatim>\<open>[f(x) for x in xs]\<close> and a filter \<^verbatim>\<open>[x for x in xs if p(x)]\<close>
  whose \<open>f\<close> or \<open>p\<close> may raise: the first exception ends the comprehension.
\<close>

fun map_exc :: "('a \<Rightarrow> py_exception + 'b) \<Rightarrow> 'a list \<Rightarrow> py_exception + 'b list" where
  "map_exc f [] = Inr []"
| "map_exc f (x # xs) =
     (case f x of
        Inl e \<Rightarrow> Inl e
      | Inr y \<Rightarrow> (case map_exc f xs of Inl e \<Rightarrow> Inl e | Inr ys \<Rightarrow> Inr (y # ys)))"

fun filter_exc :: "('a \<Rightarrow> py_exception + bool) \<Rightarrow> 'a list \<Rightarrow> py_exception + 'a list" where
  "filter_exc p [] = Inr []"
| "filter_exc p (x # xs) =
     (case p x of
        Inl e \<Rightarrow> Inl e
      | Inr b \<Rightarrow>
          (case filter_exc p xs of
             Inl e \<Rightarrow> Inl e
           | Inr ys \<Rightarrow> Inr (if b then x # ys else ys)))"

text \<open>\<^verbatim>\<open>d[k] = v\<close> on a dict in insertion order: a key already there keeps its place.\<close>

fun dict_set :: "('k \<times> 'v) list \<Rightarrow> 'k \<Rightarrow> 'v \<Rightarrow> ('k \<times> 'v) list" where
  "dict_set [] k v = [(k, v)]"
| "dict_set ((k', v') # kvs) k v =
     (if k' = k then (k, v) # kvs else (k', v') # dict_set kvs k v)"

section \<open>Files and the state of the process\<close>

text \<open>
  A file the code opens for reading is missing (\<^verbatim>\<open>open\<close> raises
  \<^verbatim>\<open>FileNotFoundError\<close>), holds text that is not JSON (\<^verbatim>\<open>json.load\<close> raises
  \<^verbatim>\<open>JSONDecodeError\<close>), or holds the text of a JSON value. \<^verbatim>\<open>json.dump\<close> followed
  by \<^verbatim>\<open>json.load\<close> gives the value back.
\<close>

datatype json_file = Missing | Malformed | Parsed json

fun load_json :: "json_file \<Rightarrow> py_exception + json" where
  "load_json Missing = Inl FileNotFoundError"
| "load_json Malformed = Inl JSONDecodeError"
| "load_json (Parsed j) = Inr j"

text \<open>
  \<open>data_cache\<close> is the global \<^verbatim>\<open>_data_cache\<close>. \<open>store_reads\<close> counts how often the
  types store was opened for reading and found.
\<close>

record bot_state =
  keywords_json :: json_file
  types_data_json :: json_file
  data_cache :: "(string \<times> json) list"
  store_reads :: nat

section \<open>\<^verbatim>\<open>match_keywords\<close>\<close>

text \<open>
  \<^verbatim>\<open>
  def match_keywords(description, keywords):
      words = description.lower().split()
      keywords_set = set(k.lower() for k in keywords)
      matches = [word for word in words if word in keywords_set]
      return len(matches) > 0
  \<close>
  \<open>keywords\<close> is whatever \<^verbatim>\<open>keywords.get(...)\<close> found in the keyword file.
\<close>

definition match_keywords :: "string \<Rightarrow> json \<Rightarrow> py_exception + bool" where
  "match_keywords description keywords =
     (let words = str_split (str_lower description) in
      case py_iter keywords of
        Inl e \<Rightarrow> Inl e
      | Inr ks \<Rightarrow>
          (case map_exc json_lower ks of
             Inl e \<Rightarrow> Inl e
           | Inr keywords_set \<Rightarrow>
               Inr (0 < length (filter (\<lambda>word. word \<in> set keywords_set) words))))"

section \<open>\<^verbatim>\<open>get_types_data\<close>: the lazy load of the cache\<close>

text \<open>
  \<^verbatim>\<open>item.get('main_type') and item.get('sub_type')\<close>, the test both loaders apply to a
  record of the store, and \<^verbatim>\<open>item.get('desc').lower()\<close>, the key they file it under.
\<close>

definition has_types :: "json \<Rightarrow> py_exception + bool" where
  "has_types item =
     (case json_get item ''main_type'' JNull of
        Inl e \<Rightarrow> Inl e
      | Inr m \<Rightarrow>
          if truthy m
          then (case json_get item ''sub_type'' JNull of
                  Inl e \<Rightarrow> Inl e
                | Inr s \<Rightarrow> Inr (truthy s))
          else Inr False)"

definition desc_key :: "json \<Rightarrow> py_exception + string" where
  "desc_key item =
     (case json_get item ''desc'' JNull of
        Inl e \<Rightarrow> Inl e
      | Inr d \<Rightarrow> json_lower d)"

text \<open>
  \<^verbatim>\<open>
  for item in json_file:
      _data_cache[item.get('desc').lower()] = item
  \<close>
  The dictionary is changed in place, so the entries stored before an exception stay.
\<close>

fun cache_items :: "json list \<Rightarrow> (string \<times> json) list \<Rightarrow> py_exception option \<times> (string \<times> json) list" where
  "cache_items [] cache = (None, cache)"
| "cache_items (item # items) cache =
     (case desc_key item of
        Inl e \<Rightarrow> (Some e, cache)
      | Inr k \<Rightarrow> cache_items items (dict_set cache k item))"

text \<open>
  The body of the \<^verbatim>\<open>try\<close> of \<^verbatim>\<open>get_types_data\<close>:
  \<^verbatim>\<open>
  with open(config.types_data_json, 'r') as file:
      json_file = json.load(file)
      json_file = [item for item in json_file if item.get('main_type') and item.get('sub_type')]
      for item in json_file:
          _data_cache[item.get('desc').lower()] = item
  \<close>
\<close>

definition get_types_data_try :: "bot_state \<Rightarrow> (py_exception + unit) \<times> bot_state" where
  "get_types_data_try st =
     (case types_data_json st of
        Missing \<Rightarrow> (Inl FileNotFoundError, st)
      | Malformed \<Rightarrow> (Inl JSONDecodeError, st\<lparr>store_reads := store_reads st + 1\<rparr>)
      | Parsed json_file \<Rightarrow>
          (let st1 = st\<lparr>store_reads := store_reads st + 1\<rparr> in
           case py_iter json_file of
             Inl e \<Rightarrow> (Inl e, st1)
           | Inr items \<Rightarrow>
               (case filter_exc has_types items of
                  Inl e \<Rightarrow> (Inl e, st1)
                | Inr kept \<Rightarrow>
                    (case cache_items kept (data_cache st1) of
                       (Some e, cache) \<Rightarrow> (Inl e, st1\<lparr>data_cache := cache\<rparr>)
                     | (None, cache) \<Rightarrow> (Inr (), st1\<lparr>data_cache := cache\<rparr>)))))"

text \<open>
  \<^verbatim>\<open>
  def get_types_data():
      global _data_cache
      if not _data_cache:
          try: ...
          except FileNotFoundError: logger.warning(...)
          except json.JSONDecodeError as e: logger.error(...)
          except Exception as e: logger.error(...)
  \<close>
  Each handler only logs; the last one takes every exception the first two leave.
\<close>

definition get_types_data :: "bot_state \<Rightarrow> (py_exception + unit) \<times> bot_state" where
  "get_types_data st =
     (if data_cache st = []
      then (case get_types_data_try st of
              (Inl e, st') \<Rightarrow> (Inr (), st')
            | (Inr u, st') \<Rightarrow> (Inr u, st'))
      else (Inr (), st))"

section \<open>\<^verbatim>\<open>detect_types\<close>\<close>

definition FUZZY_MATCH_THRESHOLD :: nat where
  "FUZZY_MATCH_THRESHOLD = 75"

text \<open>
  The inner \<^verbatim>\<open>try\<close> of \<^verbatim>\<open>detect_types\<close>:
  \<^verbatim>\<open>
  try:
      with open("keywords.json", 'r') as file:
          keywords = json.load(file)
      if match_keywords(desc_lower, keywords.get("food", [])):
          return "Food", "Outside Food/Dining/Snacks"
      if match_keywords(desc_lower, keywords.get("groceries", [])):
          return "Household", "Groceries"
  except (FileNotFoundError, json.JSONDecodeError) as e:
      logger.warning(...)
  \<close>
  \<open>Inr (Some r)\<close> is a \<^verbatim>\<open>return r\<close>, \<open>Inr None\<close> falls through to the cache, \<open>Inl e\<close>
  is an exception. \<open>keyword_rules\<close> adds the handler, which takes two classes only.
\<close>

definition keyword_rules_try :: "json_file \<Rightarrow> string \<Rightarrow> py_exception + (json \<times> json) option" where
  "keyword_rules_try kw_file desc_lower =
     (case load_json kw_file of
        Inl e \<Rightarrow> Inl e
      | Inr keywords \<Rightarrow>
          (case json_get keywords ''food'' (JArr []) of
             Inl e \<Rightarrow> Inl e
           | Inr food \<Rightarrow>
               (case match_keywords desc_lower food of
                  Inl e \<Rightarrow> Inl e
                | Inr True \<Rightarrow> Inr (Some (JStr ''Food'', JStr ''Outside Food/Dining/Snacks''))
                | Inr False \<Rightarrow>
                    (case json_get keywords ''groceries'' (JArr []) of
                       Inl e \<Rightarrow> Inl e
                     | Inr groceries \<Rightarrow>
                         (case match_keywords desc_lower groceries of
                            Inl e \<Rightarrow> Inl e
                          | Inr True \<Rightarrow> Inr (Some (JStr ''Household'', JStr ''Groceries''))
                          | Inr False \<Rightarrow> Inr None)))))"

definition keyword_rules :: "json_file \<Rightarrow> string \<Rightarrow> py_exception + (json \<times> json) option" where
  "keyword_rules kw_file desc_lower =
     (case keyword_rules_try kw_file desc_lower of
        Inl e \<Rightarrow> (if e = FileNotFoundError \<or> e = JSONDecodeError then Inr None else Inl e)
      | Inr r \<Rightarrow> Inr r)"

text \<open>\<^verbatim>\<open>return item.get("main_type", ""), item.get("sub_type", "")\<close>\<close>

definition entry_types :: "json \<Rightarrow> py_exception + json \<times> json" where
  "entry_types item =
     (case json_get item ''main_type'' (JStr []) of
        Inl e \<Rightarrow> Inl e
      | Inr m \<Rightarrow>
          (case json_get item ''sub_type'' (JStr []) of
             Inl e \<Rightarrow> Inl e
           | Inr s \<Rightarrow> Inr (m, s)))"

text \<open>
  \<^verbatim>\<open>
  for cached_desc, item in _data_cache.items():
      if fuzz.ratio(cached_desc, desc_lower) > FUZZY_MATCH_THRESHOLD:
          return item.get("main_type", ""), item.get("sub_type", "")
  return "", ""
  \<close>
  \<^verbatim>\<open>fuzz.ratio\<close> belongs to the library \<^verbatim>\<open>fuzzywuzzy\<close>; it is the parameter \<open>ratio\<close>,
  a score from 0 to 100.
\<close>

fun fuzzy_match :: "(string \<Rightarrow> string \<Rightarrow> nat) \<Rightarrow> string \<Rightarrow> (string \<times> json) list \<Rightarrow> py_exception + json \<times> json" where
  "fuzzy_match ratio desc_lower [] = Inr (JStr [], JStr [])"
| "fuzzy_match ratio desc_lower ((cached_desc, item) # rest) =
     (if ratio cached_desc desc_lower > FUZZY_MATCH_THRESHOLD then entry_types item
      else fuzzy_match ratio desc_lower rest)"

text \<open>The body of the outer \<^verbatim>\<open>try\<close> of \<^verbatim>\<open>detect_types\<close>.\<close>

definition detect_types_try :: "(string \<Rightarrow> string \<Rightarrow> nat) \<Rightarrow> string \<Rightarrow> bot_state \<Rightarrow> (py_exception + json \<times> json) \<times> bot_state" where
  "detect_types_try ratio description st =
     (let desc_lower = str_lower description in
      case keyword_rules (keywords_json st) desc_lower of
        Inl e \<Rightarrow> (Inl e, st)
      | Inr (Some r) \<Rightarrow> (Inr r, st)
      | Inr None \<Rightarrow>
          (case get_types_data st of
             (Inl e, st1) \<Rightarrow> (Inl e, st1)
           | (Inr u, st1) \<Rightarrow>
               (case map_of (data_cache st1) desc_lower of
                  Some item \<Rightarrow> (entry_types item, st1)
                | None \<Rightarrow> (fuzzy_match ratio desc_lower (data_cache st1), st1))))"

text \<open>
  \<^verbatim>\<open>
  def detect_types(desc):
      try: ...
      except Exception as e:
          logger.error(...)
          return "", ""
  \<close>
\<close>

definition detect_types :: "(string \<Rightarrow> string \<Rightarrow> nat) \<Rightarrow> string \<Rightarrow> bot_state \<Rightarrow> (py_exception + json \<times> json) \<times> bot_state" where
  "detect_types ratio description st =
     (case detect_types_try ratio description st of
        (Inl e, st') \<Rightarrow> (Inr (JStr [], JStr []), st')
      | (Inr r, st') \<Rightarrow> (Inr r, st'))"

section \<open>\<^verbatim>\<open>refresh_types_data\<close>: the reconciliation job\<close>

text \<open>
  \<^verbatim>\<open>class ExpenseItem\<close>: a row of the sheet. \<^verbatim>\<open>main_type\<close> and \<^verbatim>\<open>sub_type\<close>
  are \<^verbatim>\<open>Optional[str]\<close>.
\<close>

record ExpenseItem =
  row_id :: int
  date :: string
  desc :: string
  amount :: string
  main_type :: "string option"
  sub_type :: "string option"
  user :: string
  bot_identified :: string

text \<open>
  What \<^verbatim>\<open>get_expense_data()\<close> gives \<^verbatim>\<open>refresh_types_data\<close>: the rows, an error
  string (its own handlers return one), or an exception (\<^verbatim>\<open>get_creds()\<close> is called
  outside its \<^verbatim>\<open>try\<close>).
\<close>

datatype fetched =
    FetchRows "ExpenseItem list"
  | FetchError string
  | FetchRaised py_exception

text \<open>
  The dictionary \<^verbatim>\<open>refresh_types_data\<close> returns: its \<^verbatim>\<open>"status"\<close> and its
  \<^verbatim>\<open>"message"\<close>; a message built from an exception keeps the exception.
\<close>

datatype message =
    Message string
  | File_not_found py_exception
  | JSON_error py_exception
  | Str_of py_exception

record response =
  status :: string
  message :: message

fun opt_truthy :: "string option \<Rightarrow> bool" where
  "opt_truthy None = False"
| "opt_truthy (Some s) = (s \<noteq> [])"

fun opt_json :: "string option \<Rightarrow> json" where
  "opt_json None = JNull"
| "opt_json (Some s) = JStr s"

text \<open>
  \<^verbatim>\<open>
  filtered_list = [exp for exp in expense_list
                   if exp.main_type and exp.sub_type and exp.bot_identified != "Yes"]
  new_types = [{"desc": exp.desc, "main_type": exp.main_type, "sub_type": exp.sub_type}
               for exp in filtered_list]
  \<close>
\<close>

definition human_typed :: "ExpenseItem \<Rightarrow> bool" where
  "human_typed row =
     (opt_truthy (main_type row) \<and> opt_truthy (sub_type row) \<and> bot_identified row \<noteq> ''Yes'')"

definition type_entry :: "ExpenseItem \<Rightarrow> json" where
  "type_entry row =
     JObj [(''desc'', JStr (desc row)),
           (''main_type'', opt_json (main_type row)),
           (''sub_type'', opt_json (sub_type row))]"

definition new_types_of :: "ExpenseItem list \<Rightarrow> json list" where
  "new_types_of expense_list = map type_entry (filter human_typed expense_list)"

text \<open>
  \<^verbatim>\<open>
  if os.path.exists(config.types_data_json):
      with open(config.types_data_json, 'r') as file:
          json_file = json.load(file)
          existing_descs = {item.get('desc').lower() for item in json_file}
          new_types = [item for item in new_types
                       if item.get('desc').lower() not in existing_descs]
          json_file.extend(new_types)
          with open(config.types_data_json, 'w') as append_file:
              json.dump(json_file, append_file, indent=4)
  else:
      json_file = new_types
      with open(config.types_data_json, 'w') as new_file:
          json.dump(json_file, new_file, indent=4)
  \<close>
  The result is \<^verbatim>\<open>json_file\<close> as the reload reads it, or the exception; only a list
  has \<^verbatim>\<open>extend\<close>, and the file is opened for writing after \<^verbatim>\<open>extend\<close> only.
\<close>

definition store_new_types :: "json list \<Rightarrow> bot_state \<Rightarrow> (py_exception + json list) \<times> bot_state" where
  "store_new_types new_types st =
     (case types_data_json st of
        Missing \<Rightarrow> (Inr new_types, st\<lparr>types_data_json := Parsed (JArr new_types)\<rparr>)
      | Malformed \<Rightarrow> (Inl JSONDecodeError, st\<lparr>store_reads := store_reads st + 1\<rparr>)
      | Parsed json_file \<Rightarrow>
          (let st1 = st\<lparr>store_reads := store_reads st + 1\<rparr> in
           case py_iter json_file of
             Inl e \<Rightarrow> (Inl e, st1)
           | Inr items \<Rightarrow>
               (case map_exc desc_key items of
                  Inl e \<Rightarrow> (Inl e, st1)
                | Inr existing_descs \<Rightarrow>
                    (case filter_exc
                            (\<lambda>item. case desc_key item of
                                       Inl e \<Rightarrow> Inl e
                                     | Inr d \<Rightarrow> Inr (d \<notin> set existing_descs))
                            new_types of
                       Inl e \<Rightarrow> (Inl e, st1)
                     | Inr new_types' \<Rightarrow>
                         (case json_file of
                            JArr records \<Rightarrow>
                              (Inr (records @ new_types'),
                               st1\<lparr>types_data_json := Parsed (JArr (records @ new_types'))\<rparr>)
                          | _ \<Rightarrow> (Inl AttributeError, st1))))))"

text \<open>
  The body of the \<^verbatim>\<open>try\<close> of \<^verbatim>\<open>refresh_types_data\<close>. After the store comes the
  reload,
  \<^verbatim>\<open>
  json_file = [item for item in json_file if item.get('main_type') and item.get('sub_type')]
  for item in json_file:
      _data_cache[item.get('desc').lower()] = item
  \<close>
  and then the reminders to the users, which send messages through the Telegram
  client: \<open>notify\<close> is the exception that part raises, if any.
\<close>

definition refresh_types_data_try :: "fetched \<Rightarrow> py_exception option \<Rightarrow> bot_state \<Rightarrow> (py_exception + response) \<times> bot_state" where
  "refresh_types_data_try expense_list notify st =
     (case expense_list of
        FetchRaised e \<Rightarrow> (Inl e, st)
      | FetchError msg \<Rightarrow> (Inr \<lparr>status = ''error'', message = Message msg\<rparr>, st)
      | FetchRows rows \<Rightarrow>
          (case store_new_types (new_types_of rows) st of
             (Inl e, st1) \<Rightarrow> (Inl e, st1)
           | (Inr json_file, st1) \<Rightarrow>
               (case filter_exc has_types json_file of
                  Inl e \<Rightarrow> (Inl e, st1)
                | Inr kept \<Rightarrow>
                    (case cache_items kept (data_cache st1) of
                       (Some e, cache) \<Rightarrow> (Inl e, st1\<lparr>data_cache := cache\<rparr>)
                     | (None, cache) \<Rightarrow>
                         (case notify of
                            Some e \<Rightarrow> (Inl e, st1\<lparr>data_cache := cache\<rparr>)
                          | None \<Rightarrow>
                              (Inr \<lparr>status = ''success'',
                                    message = Message ''Types data refreshed successfully.''\<rparr>,
                               st1\<lparr>data_cache := cache\<rparr>))))))"

text \<open>
  \<^verbatim>\<open>
  except FileNotFoundError as e:
      return {"status": "error", "message": f"File not found: {e}"}
  except json.JSONDecodeError as e:
      return {"status": "error", "message": f"JSON error: {e}"}
  except Exception as e:
      return {"status": "error", "message": str(e)}
  \<close>
\<close>

definition refresh_types_data :: "fetched \<Rightarrow> py_exception option \<Rightarrow> bot_state \<Rightarrow> (py_exception + response) \<times> bot_state" where
  "refresh_types_data expense_list notify st =
     (case refresh_types_data_try expense_list notify st of
        (Inr r, st') \<Rightarrow> (Inr r, st')
      | (Inl e, st') \<Rightarrow>
          (Inr \<lparr>status = ''error'',
                message = (if e = FileNotFoundError then File_not_found e
                           else if e = JSONDecodeError then JSON_error e
                           else Str_of e)\<rparr>,
           st'))"

section \<open>Example states\<close>

text \<open>A record of the types store, as \<^verbatim>\<open>refresh_types_data\<close> writes it.\<close>

definition store_record :: "string \<Rightarrow> string \<Rightarrow> string \<Rightarrow> json" where
  "store_record d m s = JObj [(''desc'', JStr d), (''main_type'', JStr m), (''sub_type'', JStr s)]"

definition empty_state :: bot_state where
  "empty_state =
     \<lparr>keywords_json = Missing, types_data_json = Missing, data_cache = [], store_reads = 0\<rparr>"

text \<open>
  A keyword file with both rules, and a state whose cache and store would classify
  the two descriptions of the examples differently.
\<close>

definition example_keywords :: "(string \<times> json) list" where
  "example_keywords =
     [(''food'', JArr (map JStr [''pizza'', ''Coffee''])),
      (''groceries'', JArr (map JStr [''milk'', ''bread'']))]"

definition keyword_state :: bot_state where
  "keyword_state =
     \<lparr>keywords_json = Parsed (JObj example_keywords),
      types_data_json = Parsed (JArr [store_record ''milk and bread'' ''Pets'' ''Food'']),
      data_cache = [(''pizza delivery'', store_record ''pizza delivery'' ''Travel'' ''Cab'')],
      store_reads = 0\<rparr>"

text \<open>A store with a near miss in front of the exact key, not yet loaded.\<close>

definition exact_state :: bot_state where
  "exact_state =
     \<lparr>keywords_json = Missing,
      types_data_json = Parsed (JArr [store_record ''Starbucks Cofee'' ''Shopping'' ''Gifts'',
                                      store_record ''Starbucks Coffee'' ''Food'' ''Beverages'']),
      data_cache = [],
      store_reads = 0\<rparr>"

text \<open>
  Three cached keys and the scores \<^verbatim>\<open>fuzz.ratio\<close> gives them against \<open>coffee\<close>
  (\<^verbatim>\<open>round(100 * 2 * M / T)\<close> for \<open>M\<close> matching characters out of \<open>T\<close>): 75, 86 and 92.
\<close>

definition example_ratio :: "string \<Rightarrow> string \<Rightarrow> nat" where
  "example_ratio cached_desc desc_lower =
     (if desc_lower = ''coffee'' \<and> cached_desc = ''coffee bar'' then 75
      else if desc_lower = ''coffee'' \<and> cached_desc = ''coffee 1'' then 86
      else if desc_lower = ''coffee'' \<and> cached_desc = ''coffees'' then 92
      else 0)"

definition fuzzy_state :: bot_state where
  "fuzzy_state =
     \<lparr>keywords_json = Missing,
      types_data_json = Missing,
      data_cache = [(''coffee bar'', store_record ''Coffee Bar'' ''Food'' ''Cafe''),
                    (''coffee 1'', store_record ''coffee 1'' ''Food'' ''Beverages''),
                    (''coffees'', store_record ''Coffees'' ''Household'' ''Groceries'')],
      store_reads = 1\<rparr>"

text \<open>
  A store whose records lack a type: one with an empty \<^verbatim>\<open>sub_type\<close>, one without
  the key \<^verbatim>\<open>main_type\<close>, one with neither types nor \<^verbatim>\<open>desc\<close>; and the same
  description stored twice.
\<close>

definition untyped_store :: "json list" where
  "untyped_store =
     [store_record ''Uber'' ''Travel'' ''Cab'',
      store_record ''ATM'' ''Cash'' [],
      JObj [(''desc'', JStr ''Gift''), (''sub_type'', JStr ''Misc'')],
      JObj [(''note'', JStr ''cash only'')],
      store_record ''UBER'' ''Travel'' ''Taxi'']"

definition untyped_state :: bot_state where
  "untyped_state =
     \<lparr>keywords_json = Missing,
      types_data_json = Parsed (JArr [store_record ''ATM'' ''Cash'' []]),
      data_cache = [],
      store_reads = 0\<rparr>"

text \<open>
  Four rows of the sheet: one typed by hand, one typed by the bot, one without types,
  and one typed by hand whose description is already in the store of
  \<open>refresh_state\<close>. The cache of \<open>refresh_state\<close> holds a key the store lacks.
\<close>

definition expense_row :: "int \<Rightarrow> string \<Rightarrow> string option \<Rightarrow> string option \<Rightarrow> string \<Rightarrow> ExpenseItem" where
  "expense_row n d m s b =
     \<lparr>row_id = n, date = ''01/01'', desc = d, amount = ''120'', main_type = m, sub_type = s,
      user = ''Asha'', bot_identified = b\<rparr>"

definition example_rows :: "ExpenseItem list" where
  "example_rows =
     [expense_row 8 ''Taxi'' (Some ''Travel'') (Some ''Cab'') ''No'',
      expense_row 9 ''Pizza'' (Some ''Food'') (Some ''Dining'') ''Yes'',
      expense_row 10 ''Lunch'' (Some []) None ''No'',
      expense_row 11 ''UBER'' (Some ''Travel'') (Some ''Taxi'') ''No'']"

definition refresh_state :: bot_state where
  "refresh_state =
     \<lparr>keywords_json = Missing,
      types_data_json = Parsed (JArr [store_record ''Uber'' ''Travel'' ''Cab'']),
      data_cache = [(''old key'', store_record ''Old key'' ''Misc'' ''Other'')],
      store_reads = 0\<rparr>"

text \<open>
  Keyword files of the wrong shape: one whose \<^verbatim>\<open>food\<close> entry is \<^verbatim>\<open>null\<close> while
  \<^verbatim>\<open>groceries\<close> lists \<open>pizza\<close>, over the cache of \<open>fuzzy_state\<close>; and one that is an
  empty list, over a cache that holds the exact key.
\<close>

definition null_food_state :: bot_state where
  "null_food_state =
     fuzzy_state\<lparr>keywords_json :=
       Parsed (JObj [(''food'', JNull), (''groceries'', JArr [JStr ''pizza''])])\<rparr>"

definition list_keywords_state :: bot_state where
  "list_keywords_state =
     \<lparr>keywords_json = Parsed (JArr []),
      types_data_json = Parsed (JArr [store_record ''Starbucks Coffee'' ''Food'' ''Beverages'']),
      data_cache = [(''starbucks coffee'', store_record ''Starbucks Coffee'' ''Food'' ''Beverages'')],
      store_reads = 1\<rparr>"

text \<open>A store whose first record has both types and no \<^verbatim>\<open>desc\<close>.\<close>

definition no_desc_store :: "json list" where
  "no_desc_store =
     [JObj [(''main_type'', JStr ''Food''), (''sub_type'', JStr ''Dining'')],
      store_record ''Uber'' ''Travel'' ''Cab'']"

lemmas eval_defs =
  str_lower_def lower_char_def str_split_def isspace_def store_record_def
  keyword_rules_def keyword_rules_try_def match_keywords_def
  get_types_data_def get_types_data_try_def has_types_def desc_key_def entry_types_def

lemmas refresh_defs =
  refresh_types_data_def refresh_types_data_try_def store_new_types_def new_types_of_def
  human_typed_def type_entry_def expense_row_def example_rows_def refresh_state_def

section \<open>Strings and tokens\<close>

lemma lower_char_idem: "lower_char (lower_char c) = lower_char c"
  by (auto simp add: lower_char_def split: option.splits if_splits)

lemma str_lower_idem: "str_lower (str_lower s) = str_lower s"
  by (simp add: str_lower_def lower_char_idem)

text \<open>
  The tokens of \<open>str_split\<close> are the words between whitespace: put together they
  are the string without its whitespace, and no token is empty or holds whitespace.
\<close>

lemma split_from_concat:
  "concat (split_from cur s) = cur @ filter (\<lambda>c. \<not> isspace c) s"
  by (induction s arbitrary: cur) auto

lemma split_from_tokens:
  "w \<in> set (split_from cur s) \<Longrightarrow> \<forall>c\<in>set cur. \<not> isspace c \<Longrightarrow>
     w \<noteq> [] \<and> (\<forall>c\<in>set w. \<not> isspace c)"
proof (induction s arbitrary: cur)
  case Nil
  then show ?case by (auto split: if_splits)
next
  case (Cons a s)
  show ?case
  proof (cases "isspace a")
    case True
    with Cons.prems have "w = cur \<and> cur \<noteq> [] \<or> w \<in> set (split_from [] s)"
      by (auto split: if_splits)
    then show ?thesis
      using Cons.IH [of "[]"] Cons.prems(2) by auto
  next
    case False
    with Cons.prems have "w \<in> set (split_from (cur @ [a]) s)" by simp
    moreover have "\<forall>c\<in>set (cur @ [a]). \<not> isspace c"
      using False Cons.prems(2) by auto
    ultimately show ?thesis by (rule Cons.IH)
  qed
qed

lemma str_split_tokens:
  "w \<in> set (str_split s) \<Longrightarrow> w \<noteq> [] \<and> (\<forall>c\<in>set w. \<not> isspace c)"
  unfolding str_split_def using split_from_tokens [of w "[]" s] by simp

section \<open>The keyword stage\<close>

lemma map_exc_json_lower: "map_exc json_lower (map JStr ks) = Inr (map str_lower ks)"
  by (induction ks) simp_all

lemma filter_nonempty_iff:
  "0 < length (filter (\<lambda>x. x \<in> A) xs) \<longleftrightarrow> set xs \<inter> A \<noteq> {}"
  by (induction xs) auto

lemma match_keywords_strings:
  "match_keywords d (JArr (map JStr ks)) =
     Inr (set (str_split (str_lower d)) \<inter> set (map str_lower ks) \<noteq> {})"
  using filter_nonempty_iff [of "set (map str_lower ks)" "str_split (str_lower d)"]
  by (simp add: match_keywords_def map_exc_json_lower)

text \<open>
  C2. On a list of keyword strings \<open>match_keywords\<close> returns true exactly when the
  tokens of the lowercased description and the lowercased keywords share an element,
  for all strings of code points below 256.
  A keyword that is only part of a longer token is no match: neither \<open>pizza\<close> nor
  \<open>apple\<close> matches \<open>Pineapple pizzas\<close>.
\<close>

theorem match_keywords_intersection:
  "match_keywords description (JArr (map JStr keywords)) =
     Inr (set (str_split (str_lower description)) \<inter> set (map str_lower keywords) \<noteq> {})
   \<and> match_keywords ''Pineapple pizzas'' (JArr (map JStr [''pizza'', ''apple''])) = Inr False"
proof
  show "match_keywords description (JArr (map JStr keywords)) =
     Inr (set (str_split (str_lower description)) \<inter> set (map str_lower keywords) \<noteq> {})"
    by (rule match_keywords_strings)
  show "match_keywords ''Pineapple pizzas'' (JArr (map JStr [''pizza'', ''apple''])) = Inr False"
    by (simp add: match_keywords_def str_lower_def lower_char_def str_split_def isspace_def)
qed

theorem match_keywords_intersection_witness:
  "match_keywords ''PIZZA order'' (JArr (map JStr [''Pizza''])) = Inr True
   \<and> str_split (str_lower ''PIZZA order'') = [''pizza'', ''order'']
   \<and> map str_lower [''Pizza''] = [''pizza'']
   \<and> match_keywords (''CAF'' @ [CHR 0xC9] @ '' visit'') (JArr (map JStr [''caf'' @ [CHR 0xE9]])) =
       Inr True
   \<and> match_keywords (''pizza'' @ [CHR 0xA0] @ ''hut'') (JArr (map JStr [''pizza''])) = Inr True"
  using match_keywords_intersection [of "''PIZZA order''" "[''Pizza'']"]
    match_keywords_intersection [of "''CAF'' @ [CHR 0xC9] @ '' visit''" "[''caf'' @ [CHR 0xE9]]"]
    match_keywords_intersection [of "''pizza'' @ [CHR 0xA0] @ ''hut''" "[''pizza'']"]
  by (simp add: str_lower_def lower_char_def str_split_def isspace_def)

section \<open>Keyword rules come first\<close>

lemma keyword_rules_food:
  assumes "json_get (JObj kw) ''food'' (JArr []) = Inr (JArr (map JStr food))"
    and "set (str_split (str_lower d)) \<inter> set (map str_lower food) \<noteq> {}"
  shows "keyword_rules (Parsed (JObj kw)) (str_lower d) =
           Inr (Some (JStr ''Food'', JStr ''Outside Food/Dining/Snacks''))"
  using assms
  by (simp add: keyword_rules_def keyword_rules_try_def match_keywords_strings str_lower_idem
           del: json_get.simps)

lemma keyword_rules_groceries:
  assumes "json_get (JObj kw) ''food'' (JArr []) = Inr (JArr (map JStr food))"
    and "set (str_split (str_lower d)) \<inter> set (map str_lower food) = {}"
    and "json_get (JObj kw) ''groceries'' (JArr []) = Inr (JArr (map JStr groceries))"
    and "set (str_split (str_lower d)) \<inter> set (map str_lower groceries) \<noteq> {}"
  shows "keyword_rules (Parsed (JObj kw)) (str_lower d) =
           Inr (Some (JStr ''Household'', JStr ''Groceries''))"
  using assms
  by (simp add: keyword_rules_def keyword_rules_try_def match_keywords_strings str_lower_idem
           del: json_get.simps)

lemma detect_types_keyword_hit:
  "keyword_rules (keywords_json st) (str_lower d) = Inr (Some r) \<Longrightarrow>
     detect_types ratio d st = (Inr r, st)"
  by (simp add: detect_types_def detect_types_try_def)

text \<open>
  C1. Let the keyword file be an object whose \<^verbatim>\<open>food\<close> entry is absent or a list of
  strings. If a token of the description is one of the food keywords, \<open>detect_types\<close>
  returns \<^verbatim>\<open>("Food", "Outside Food/Dining/Snacks")\<close>; if none is, and the
  \<^verbatim>\<open>groceries\<close> entry is absent or a list of strings one of which is a token, it
  returns \<^verbatim>\<open>("Household", "Groceries")\<close>. Food is tried first. In both cases the
  state comes back as it was, whatever the cache and the types store hold: the cache
  is neither loaded nor read.
\<close>

theorem detect_types_keyword_first:
  assumes "keywords_json st = Parsed (JObj kw)"
    and "json_get (JObj kw) ''food'' (JArr []) = Inr (JArr (map JStr food))"
  shows
    "(set (str_split (str_lower description)) \<inter> set (map str_lower food) \<noteq> {} \<longrightarrow>
        detect_types ratio description (st\<lparr>data_cache := cache, types_data_json := store\<rparr>) =
          (Inr (JStr ''Food'', JStr ''Outside Food/Dining/Snacks''),
           st\<lparr>data_cache := cache, types_data_json := store\<rparr>))
     \<and> (set (str_split (str_lower description)) \<inter> set (map str_lower food) = {}
        \<and> json_get (JObj kw) ''groceries'' (JArr []) = Inr (JArr (map JStr groceries))
        \<and> set (str_split (str_lower description)) \<inter> set (map str_lower groceries) \<noteq> {} \<longrightarrow>
        detect_types ratio description (st\<lparr>data_cache := cache, types_data_json := store\<rparr>) =
          (Inr (JStr ''Household'', JStr ''Groceries''),
           st\<lparr>data_cache := cache, types_data_json := store\<rparr>))"
proof (intro conjI impI)
  let ?st = "st\<lparr>data_cache := cache, types_data_json := store\<rparr>"
  have kw: "keywords_json ?st = Parsed (JObj kw)"
    using assms(1) by simp
  {
    assume "set (str_split (str_lower description)) \<inter> set (map str_lower food) \<noteq> {}"
    then have "keyword_rules (keywords_json ?st) (str_lower description) =
        Inr (Some (JStr ''Food'', JStr ''Outside Food/Dining/Snacks''))"
      unfolding kw using assms(2) by (intro keyword_rules_food)
    then show "detect_types ratio description ?st =
        (Inr (JStr ''Food'', JStr ''Outside Food/Dining/Snacks''), ?st)"
      by (rule detect_types_keyword_hit)
  }
  {
    assume h: "set (str_split (str_lower description)) \<inter> set (map str_lower food) = {}
        \<and> json_get (JObj kw) ''groceries'' (JArr []) = Inr (JArr (map JStr groceries))
        \<and> set (str_split (str_lower description)) \<inter> set (map str_lower groceries) \<noteq> {}"
    have "keyword_rules (keywords_json ?st) (str_lower description) =
        Inr (Some (JStr ''Household'', JStr ''Groceries''))"
      unfolding kw
      using keyword_rules_groceries [OF assms(2) conjunct1 [OF h] conjunct1 [OF conjunct2 [OF h]]
          conjunct2 [OF conjunct2 [OF h]]] .
    then show "detect_types ratio description ?st =
        (Inr (JStr ''Household'', JStr ''Groceries''), ?st)"
      by (rule detect_types_keyword_hit)
  }
qed

theorem detect_types_keyword_first_witness:
  "detect_types (\<lambda>a b. 100) ''PIZZA delivery'' keyword_state =
     (Inr (JStr ''Food'', JStr ''Outside Food/Dining/Snacks''), keyword_state)
   \<and> detect_types (\<lambda>a b. 100) ''Milk and bread'' keyword_state =
     (Inr (JStr ''Household'', JStr ''Groceries''), keyword_state)
   \<and> map_of (data_cache keyword_state) (str_lower ''PIZZA delivery'') =
       Some (store_record ''pizza delivery'' ''Travel'' ''Cab'')"
proof -
  have kw: "keywords_json keyword_state = Parsed (JObj example_keywords)"
    by (simp add: keyword_state_def)
  have food: "json_get (JObj example_keywords) ''food'' (JArr []) =
      Inr (JArr (map JStr [''pizza'', ''Coffee'']))"
    by (simp add: example_keywords_def)
  have same: "keyword_state\<lparr>data_cache := data_cache keyword_state,
      types_data_json := types_data_json keyword_state\<rparr> = keyword_state"
    by simp
  have a: "detect_types (\<lambda>a b. 100) ''PIZZA delivery'' keyword_state =
     (Inr (JStr ''Food'', JStr ''Outside Food/Dining/Snacks''), keyword_state)"
    using detect_types_keyword_first [OF kw food,
        where description = "''PIZZA delivery''" and cache = "data_cache keyword_state"
          and store = "types_data_json keyword_state" and ratio = "\<lambda>a b. 100"]
    unfolding same
    by (simp add: str_lower_def lower_char_def str_split_def isspace_def)
  have b: "detect_types (\<lambda>a b. 100) ''Milk and bread'' keyword_state =
     (Inr (JStr ''Household'', JStr ''Groceries''), keyword_state)"
    using detect_types_keyword_first [OF kw food,
        where description = "''Milk and bread''" and cache = "data_cache keyword_state"
          and store = "types_data_json keyword_state" and ratio = "\<lambda>a b. 100"
          and groceries = "[''milk'', ''bread'']"]
    unfolding same
    by (simp add: str_lower_def lower_char_def str_split_def isspace_def example_keywords_def)
  have c: "map_of (data_cache keyword_state) (str_lower ''PIZZA delivery'') =
       Some (store_record ''pizza delivery'' ''Travel'' ''Cab'')"
    by (simp add: keyword_state_def str_lower_def lower_char_def)
  from a b c show ?thesis by blast
qed

text \<open>
  Without the condition on the \<^verbatim>\<open>food\<close> entry the claim fails: \<open>match_keywords\<close>
  raises on a \<^verbatim>\<open>food\<close> entry that is \<^verbatim>\<open>null\<close>, the handler of the keyword stage
  does not take the exception, and \<open>detect_types\<close> returns \<^verbatim>\<open>("", "")\<close> although
  the description is a groceries keyword.
\<close>

theorem detect_types_groceries_counterexample:
  "keywords_json null_food_state =
     Parsed (JObj [(''food'', JNull), (''groceries'', JArr (map JStr [''pizza'']))])
   \<and> set (str_split (str_lower ''pizza'')) \<inter> set (map str_lower [''pizza'']) \<noteq> {}
   \<and> detect_types example_ratio ''pizza'' null_food_state =
       (Inr (JStr [], JStr []), null_food_state)"
  by (simp add: detect_types_def detect_types_try_def null_food_state_def fuzzy_state_def eval_defs)

section \<open>The cache stage of \<^verbatim>\<open>detect_types\<close>\<close>

lemma get_types_data_returns: "fst (get_types_data st) = Inr ()"
  by (simp add: get_types_data_def split: prod.splits sum.splits)

lemma entry_types_object:
  "entry_types (JObj kvs) =
     Inr (case map_of kvs ''main_type'' of None \<Rightarrow> JStr [] | Some v \<Rightarrow> v,
          case map_of kvs ''sub_type'' of None \<Rightarrow> JStr [] | Some v \<Rightarrow> v)"
  by (simp add: entry_types_def)

lemma detect_types_cache_stage:
  assumes "keyword_rules (keywords_json st) (str_lower d) = Inr None"
  shows "detect_types ratio d st =
     (case (case map_of (data_cache (snd (get_types_data st))) (str_lower d) of
              Some item \<Rightarrow> entry_types item
            | None \<Rightarrow> fuzzy_match ratio (str_lower d) (data_cache (snd (get_types_data st)))) of
        Inl e \<Rightarrow> Inr (JStr [], JStr [])
      | Inr r \<Rightarrow> Inr r,
      snd (get_types_data st))"
proof -
  obtain u st1 where g: "get_types_data st = (u, st1)" by (cases "get_types_data st")
  with get_types_data_returns [of st] have u: "u = Inr ()" by simp
  show ?thesis
    using assms
    by (simp add: detect_types_def detect_types_try_def g u split: option.splits sum.splits)
qed

text \<open>
  C3. When the keyword stage runs through without a match (the keyword file is
  missing or not JSON, or both rules are read and neither matches) and the
  lowercased description is a key of the cache as \<open>get_types_data\<close> leaves it,
  \<open>detect_types\<close> returns the \<^verbatim>\<open>main_type\<close> and \<^verbatim>\<open>sub_type\<close> of that entry (the empty
  string for a key the entry lacks), for every \<open>ratio\<close>: the fuzzy loop is not
  reached.
\<close>

theorem detect_types_exact_hit:
  assumes "keyword_rules (keywords_json st) (str_lower description) = Inr None"
    and "map_of (data_cache (snd (get_types_data st))) (str_lower description) = Some (JObj kvs)"
  shows "fst (detect_types ratio description st) =
           Inr (case map_of kvs ''main_type'' of None \<Rightarrow> JStr [] | Some v \<Rightarrow> v,
                case map_of kvs ''sub_type'' of None \<Rightarrow> JStr [] | Some v \<Rightarrow> v)"
  using assms(2)
  by (simp add: detect_types_cache_stage [OF assms(1)] entry_types_object)

theorem detect_types_exact_hit_witness:
  "fst (detect_types (\<lambda>a b. 100) ''Starbucks COFFEE'' exact_state) =
     Inr (JStr ''Food'', JStr ''Beverages'')
   \<and> fuzzy_match (\<lambda>a b. 100) (str_lower ''Starbucks COFFEE'')
         (data_cache (snd (get_types_data exact_state))) =
     Inr (JStr ''Shopping'', JStr ''Gifts'')"
proof -
  have kw: "keyword_rules (keywords_json exact_state) (str_lower ''Starbucks COFFEE'') = Inr None"
    by (simp add: exact_state_def keyword_rules_def keyword_rules_try_def)
  have hit: "map_of (data_cache (snd (get_types_data exact_state))) (str_lower ''Starbucks COFFEE'') =
      Some (JObj [(''desc'', JStr ''Starbucks Coffee''), (''main_type'', JStr ''Food''),
                  (''sub_type'', JStr ''Beverages'')])"
    by (simp add: exact_state_def eval_defs)
  have "fst (detect_types (\<lambda>a b. 100) ''Starbucks COFFEE'' exact_state) =
     Inr (JStr ''Food'', JStr ''Beverages'')"
    using detect_types_exact_hit [OF kw hit, of "\<lambda>a b. 100"] by simp
  moreover have "fuzzy_match (\<lambda>a b. 100) (str_lower ''Starbucks COFFEE'')
         (data_cache (snd (get_types_data exact_state))) =
     Inr (JStr ''Shopping'', JStr ''Gifts'')"
    by (simp add: exact_state_def eval_defs FUZZY_MATCH_THRESHOLD_def)
  ultimately show ?thesis by blast
qed

text \<open>
  With a keyword file of the wrong shape no rule matches either, but the keyword
  stage raises: \<open>detect_types\<close> returns \<^verbatim>\<open>("", "")\<close> although the lowercased
  description is a key of the cache.
\<close>

theorem detect_types_exact_counterexample:
  "keyword_rules_try (keywords_json list_keywords_state) (str_lower ''Starbucks Coffee'') =
     Inl AttributeError
   \<and> map_of (data_cache (snd (get_types_data list_keywords_state))) (str_lower ''Starbucks Coffee'') =
       Some (store_record ''Starbucks Coffee'' ''Food'' ''Beverages'')
   \<and> fst (detect_types example_ratio ''Starbucks Coffee'' list_keywords_state) =
       Inr (JStr [], JStr [])"
  by (simp add: detect_types_def detect_types_try_def list_keywords_state_def eval_defs)

lemma fuzzy_match_none:
  "\<forall>j<length cache. ratio (fst (cache ! j)) d \<le> FUZZY_MATCH_THRESHOLD \<Longrightarrow>
     fuzzy_match ratio d cache = Inr (JStr [], JStr [])"
proof (induction cache)
  case Nil
  then show ?case by simp
next
  case (Cons p cache)
  obtain k item where p: "p = (k, item)" by (cases p)
  from Cons.prems have "ratio (fst ((p # cache) ! 0)) d \<le> FUZZY_MATCH_THRESHOLD"
    by blast
  then have k: "ratio k d \<le> FUZZY_MATCH_THRESHOLD" by (simp add: p)
  have "\<forall>j<length cache. ratio (fst (cache ! j)) d \<le> FUZZY_MATCH_THRESHOLD"
  proof (intro allI impI)
    fix j assume "j < length cache"
    then have "Suc j < length (p # cache)" by simp
    with Cons.prems have "ratio (fst ((p # cache) ! Suc j)) d \<le> FUZZY_MATCH_THRESHOLD"
      by blast
    then show "ratio (fst (cache ! j)) d \<le> FUZZY_MATCH_THRESHOLD" by simp
  qed
  with Cons.IH k show ?case by (simp add: p)
qed

lemma fuzzy_match_first:
  "i < length cache \<Longrightarrow> FUZZY_MATCH_THRESHOLD < ratio (fst (cache ! i)) d \<Longrightarrow>
   \<forall>j<i. ratio (fst (cache ! j)) d \<le> FUZZY_MATCH_THRESHOLD \<Longrightarrow>
     fuzzy_match ratio d cache = entry_types (snd (cache ! i))"
proof (induction cache arbitrary: i)
  case Nil
  then show ?case by simp
next
  case (Cons p cache)
  obtain k item where p: "p = (k, item)" by (cases p)
  show ?case
  proof (cases i)
    case 0
    with Cons.prems(2) show ?thesis by (simp add: p)
  next
    case (Suc n)
    from Cons.prems(3) Suc have "ratio (fst ((p # cache) ! 0)) d \<le> FUZZY_MATCH_THRESHOLD"
      by blast
    then have k: "ratio k d \<le> FUZZY_MATCH_THRESHOLD" by (simp add: p)
    have n: "n < length cache" using Cons.prems(1) Suc by simp
    have hit: "FUZZY_MATCH_THRESHOLD < ratio (fst (cache ! n)) d"
      using Cons.prems(2) Suc by simp
    have before: "\<forall>j<n. ratio (fst (cache ! j)) d \<le> FUZZY_MATCH_THRESHOLD"
    proof (intro allI impI)
      fix j assume "j < n"
      then have "Suc j < i" using Suc by simp
      with Cons.prems(3) have "ratio (fst ((p # cache) ! Suc j)) d \<le> FUZZY_MATCH_THRESHOLD"
        by blast
      then show "ratio (fst (cache ! j)) d \<le> FUZZY_MATCH_THRESHOLD" by simp
    qed
    from Cons.IH [OF n hit before] k Suc show ?thesis by (simp add: p)
  qed
qed

text \<open>
  C4. When the keyword stage runs through without a match and the lowercased
  description is not a key of the cache, \<open>detect_types\<close> returns the types of the
  entry at the first position \<open>i\<close>, in the order of the cache, whose key scores more
  than 75 against the lowercased description; every entry before it scores at most
  75, and an entry after it may score higher. If no entry scores more than 75 (a
  score of exactly 75 is not enough) the result is \<^verbatim>\<open>("", "")\<close>.
\<close>

theorem detect_types_fuzzy_first:
  assumes "keyword_rules (keywords_json st) (str_lower description) = Inr None"
    and "cache = data_cache (snd (get_types_data st))"
    and "map_of cache (str_lower description) = None"
  shows
    "(i < length cache
        \<and> 75 < ratio (fst (cache ! i)) (str_lower description)
        \<and> (\<forall>j<i. ratio (fst (cache ! j)) (str_lower description) \<le> 75)
        \<and> snd (cache ! i) = JObj kvs \<longrightarrow>
      fst (detect_types ratio description st) =
        Inr (case map_of kvs ''main_type'' of None \<Rightarrow> JStr [] | Some v \<Rightarrow> v,
             case map_of kvs ''sub_type'' of None \<Rightarrow> JStr [] | Some v \<Rightarrow> v))
     \<and> ((\<forall>j<length cache. ratio (fst (cache ! j)) (str_lower description) \<le> 75) \<longrightarrow>
      fst (detect_types ratio description st) = Inr (JStr [], JStr []))"
proof (intro conjI impI)
  have stage: "fst (detect_types ratio description st) =
      (case fuzzy_match ratio (str_lower description) cache of
         Inl e \<Rightarrow> Inr (JStr [], JStr [])
       | Inr r \<Rightarrow> Inr r)"
    using assms(2,3) by (simp add: detect_types_cache_stage [OF assms(1)])
  {
    assume h: "i < length cache
        \<and> 75 < ratio (fst (cache ! i)) (str_lower description)
        \<and> (\<forall>j<i. ratio (fst (cache ! j)) (str_lower description) \<le> 75)
        \<and> snd (cache ! i) = JObj kvs"
    then have "fuzzy_match ratio (str_lower description) cache = entry_types (snd (cache ! i))"
      by (intro fuzzy_match_first) (simp_all add: FUZZY_MATCH_THRESHOLD_def)
    with h show "fst (detect_types ratio description st) =
        Inr (case map_of kvs ''main_type'' of None \<Rightarrow> JStr [] | Some v \<Rightarrow> v,
             case map_of kvs ''sub_type'' of None \<Rightarrow> JStr [] | Some v \<Rightarrow> v)"
      by (simp add: stage entry_types_object)
  }
  {
    assume "\<forall>j<length cache. ratio (fst (cache ! j)) (str_lower description) \<le> 75"
    then have "fuzzy_match ratio (str_lower description) cache = Inr (JStr [], JStr [])"
      by (intro fuzzy_match_none) (simp add: FUZZY_MATCH_THRESHOLD_def)
    then show "fst (detect_types ratio description st) = Inr (JStr [], JStr [])"
      by (simp add: stage)
  }
qed

theorem detect_types_fuzzy_first_witness:
  "fst (detect_types example_ratio ''Coffee'' fuzzy_state) = Inr (JStr ''Food'', JStr ''Beverages'')
   \<and> example_ratio ''coffee bar'' (str_lower ''Coffee'') = 75
   \<and> example_ratio ''coffee 1'' (str_lower ''Coffee'') = 86
   \<and> example_ratio ''coffees'' (str_lower ''Coffee'') = 92
   \<and> map fst (data_cache fuzzy_state) = [''coffee bar'', ''coffee 1'', ''coffees'']
   \<and> fst (detect_types (\<lambda>a b. 75) ''Coffee'' fuzzy_state) = Inr (JStr [], JStr [])"
proof -
  have kw: "keyword_rules (keywords_json fuzzy_state) (str_lower ''Coffee'') = Inr None"
    by (simp add: fuzzy_state_def keyword_rules_def keyword_rules_try_def)
  have cache: "data_cache fuzzy_state = data_cache (snd (get_types_data fuzzy_state))"
    by (simp add: fuzzy_state_def get_types_data_def)
  have low: "str_lower ''Coffee'' = ''coffee''"
    by (simp add: str_lower_def lower_char_def)
  have miss: "map_of (data_cache fuzzy_state) (str_lower ''Coffee'') = None"
    by (simp add: fuzzy_state_def low)
  have a: "fst (detect_types example_ratio ''Coffee'' fuzzy_state) =
      Inr (JStr ''Food'', JStr ''Beverages'')"
    using detect_types_fuzzy_first [OF kw cache miss, of 1 example_ratio
        "[(''desc'', JStr ''coffee 1''), (''main_type'', JStr ''Food''),
          (''sub_type'', JStr ''Beverages'')]"]
    by (simp add: fuzzy_state_def low example_ratio_def store_record_def)
  have b: "fst (detect_types (\<lambda>a b. 75) ''Coffee'' fuzzy_state) = Inr (JStr [], JStr [])"
    using detect_types_fuzzy_first [OF kw cache miss, of 0 "\<lambda>a b. 75"]
    by simp
  have c: "example_ratio ''coffee bar'' (str_lower ''Coffee'') = 75
   \<and> example_ratio ''coffee 1'' (str_lower ''Coffee'') = 86
   \<and> example_ratio ''coffees'' (str_lower ''Coffee'') = 92
   \<and> map fst (data_cache fuzzy_state) = [''coffee bar'', ''coffee 1'', ''coffees'']"
    by (simp add: low example_ratio_def fuzzy_state_def)
  from a b c show ?thesis by blast
qed

text \<open>
  With a keyword file of the wrong shape the fuzzy loop is not reached: no rule
  matches, the description is no key of the cache, a key scores 86, and
  \<open>detect_types\<close> returns \<^verbatim>\<open>("", "")\<close>.
\<close>

theorem detect_types_fuzzy_counterexample:
  "keyword_rules_try (keywords_json null_food_state) (str_lower ''Coffee'') = Inl TypeError
   \<and> map_of (data_cache (snd (get_types_data null_food_state))) (str_lower ''Coffee'') = None
   \<and> 75 < example_ratio ''coffee 1'' (str_lower ''Coffee'')
   \<and> map_of (data_cache (snd (get_types_data null_food_state))) ''coffee 1'' =
       Some (store_record ''coffee 1'' ''Food'' ''Beverages'')
   \<and> fst (detect_types example_ratio ''Coffee'' null_food_state) = Inr (JStr [], JStr [])"
  by (simp add: detect_types_def detect_types_try_def null_food_state_def fuzzy_state_def
        example_ratio_def eval_defs)

text \<open>
  C5. \<open>detect_types\<close> always returns a pair and never an exception. It returns
  \<^verbatim>\<open>("", "")\<close> when the body of its \<^verbatim>\<open>try\<close> raises, and when the keyword stage falls
  through and the cache, as \<open>get_types_data\<close> leaves it, has neither the lowercased
  description as a key nor a key scoring more than 75 (an empty cache among them).
\<close>

theorem detect_types_never_raises:
  "(\<exists>r. fst (detect_types ratio description st) = Inr r)
   \<and> (\<forall>e. fst (detect_types_try ratio description st) = Inl e \<longrightarrow>
        fst (detect_types ratio description st) = Inr (JStr [], JStr []))
   \<and> (keyword_rules (keywords_json st) (str_lower description) = Inr None
        \<and> map_of (data_cache (snd (get_types_data st))) (str_lower description) = None
        \<and> (\<forall>j<length (data_cache (snd (get_types_data st))).
              ratio (fst (data_cache (snd (get_types_data st)) ! j)) (str_lower description) \<le> 75) \<longrightarrow>
        fst (detect_types ratio description st) = Inr (JStr [], JStr []))"
proof (intro conjI allI impI)
  show "\<exists>r. fst (detect_types ratio description st) = Inr r"
    by (simp add: detect_types_def split: prod.splits sum.splits)
next
  fix e assume "fst (detect_types_try ratio description st) = Inl e"
  then show "fst (detect_types ratio description st) = Inr (JStr [], JStr [])"
    by (cases "detect_types_try ratio description st") (simp add: detect_types_def)
next
  assume h: "keyword_rules (keywords_json st) (str_lower description) = Inr None
        \<and> map_of (data_cache (snd (get_types_data st))) (str_lower description) = None
        \<and> (\<forall>j<length (data_cache (snd (get_types_data st))).
              ratio (fst (data_cache (snd (get_types_data st)) ! j)) (str_lower description) \<le> 75)"
  then have "fuzzy_match ratio (str_lower description) (data_cache (snd (get_types_data st))) =
      Inr (JStr [], JStr [])"
    by (intro fuzzy_match_none) (simp add: FUZZY_MATCH_THRESHOLD_def)
  with h show "fst (detect_types ratio description st) = Inr (JStr [], JStr [])"
    by (simp add: detect_types_cache_stage)
qed

theorem detect_types_never_raises_witness:
  "fst (detect_types example_ratio ''xyz123'' empty_state) = Inr (JStr [], JStr [])
   \<and> fst (detect_types_try example_ratio ''anything''
            (empty_state\<lparr>keywords_json := Parsed (JArr [])\<rparr>)) = Inl AttributeError
   \<and> fst (detect_types example_ratio ''anything''
            (empty_state\<lparr>keywords_json := Parsed (JArr [])\<rparr>)) = Inr (JStr [], JStr [])"
proof -
  have empty: "data_cache (snd (get_types_data empty_state)) = []"
    by (simp add: empty_state_def get_types_data_def get_types_data_try_def)
  have kw: "keyword_rules (keywords_json empty_state) (str_lower ''xyz123'') = Inr None"
    by (simp add: empty_state_def keyword_rules_def keyword_rules_try_def)
  have a: "fst (detect_types example_ratio ''xyz123'' empty_state) = Inr (JStr [], JStr [])"
    using detect_types_never_raises [of example_ratio "''xyz123''" empty_state] kw
    by (simp add: empty)
  have raised: "fst (detect_types_try example_ratio ''anything''
            (empty_state\<lparr>keywords_json := Parsed (JArr [])\<rparr>)) = Inl AttributeError"
    by (simp add: detect_types_try_def empty_state_def keyword_rules_def keyword_rules_try_def)
  have b: "fst (detect_types example_ratio ''anything''
            (empty_state\<lparr>keywords_json := Parsed (JArr [])\<rparr>)) = Inr (JStr [], JStr [])"
    using detect_types_never_raises [of example_ratio "''anything''"
        "empty_state\<lparr>keywords_json := Parsed (JArr [])\<rparr>"] raised
    by blast
  from a raised b show ?thesis by blast
qed

section \<open>The cache as a dictionary\<close>

lemma map_of_dict_set: "map_of (dict_set cache k v) = (map_of cache)(k \<mapsto> v)"
  by (induction cache k v rule: dict_set.induct) (auto simp add: fun_eq_iff)

lemma keys_dict_set: "fst ` set (dict_set cache k v) = insert k (fst ` set cache)"
  by (induction cache k v rule: dict_set.induct) auto

lemma distinct_dict_set:
  "distinct (map fst cache) \<Longrightarrow> distinct (map fst (dict_set cache k v))"
proof (induction cache k v rule: dict_set.induct)
  case (1 k v)
  then show ?case by simp
next
  case (2 k' v' kvs k v)
  then show ?case
    using keys_dict_set [of kvs k v] by (auto simp del: keys_dict_set)
qed

lemma filter_exc_total:
  "\<forall>x\<in>set xs. \<exists>b. p x = Inr b \<Longrightarrow> filter_exc p xs = Inr (filter (\<lambda>x. p x = Inr True) xs)"
  by (induction xs) auto

lemma desc_key_has_types: "desc_key item = Inr k \<Longrightarrow> \<exists>b. has_types item = Inr b"
  by (cases item) (auto simp add: desc_key_def has_types_def)

lemma find_append_case:
  "find P (xs @ ys) = (case find P xs of None \<Rightarrow> find P ys | Some x \<Rightarrow> Some x)"
  by (induction xs) auto

lemma find_filter: "find Q (filter P xs) = find (\<lambda>x. P x \<and> Q x) xs"
  by (induction xs) auto

lemma cache_items_keys:
  "fst ` set cache \<subseteq> fst ` set (snd (cache_items items cache))"
proof (induction items arbitrary: cache)
  case Nil
  then show ?case by simp
next
  case (Cons item items)
  show ?case
  proof (cases "desc_key item")
    case (Inl e)
    then show ?thesis by simp
  next
    case (Inr k)
    have "fst ` set cache \<subseteq> fst ` set (dict_set cache k item)"
      by (auto simp add: keys_dict_set)
    also have "\<dots> \<subseteq> fst ` set (snd (cache_items items (dict_set cache k item)))"
      by (rule Cons.IH)
    finally show ?thesis by (simp add: Inr)
  qed
qed

lemma cache_items_distinct:
  "distinct (map fst cache) \<Longrightarrow> distinct (map fst (snd (cache_items items cache)))"
  by (induction items arbitrary: cache) (auto simp add: distinct_dict_set split: sum.splits)

lemma cache_items_total:
  "\<forall>item\<in>set items. \<exists>k. desc_key item = Inr k \<Longrightarrow> fst (cache_items items cache) = None"
  by (induction items arbitrary: cache) auto

lemma cache_items_lookup:
  "\<forall>item\<in>set items. \<exists>k. desc_key item = Inr k \<Longrightarrow>
     map_of (snd (cache_items items cache)) k =
       (case find (\<lambda>item. desc_key item = Inr k) (rev items) of
          None \<Rightarrow> map_of cache k
        | Some item \<Rightarrow> Some item)"
proof (induction items arbitrary: cache)
  case Nil
  then show ?case by simp
next
  case (Cons item items)
  from Cons.prems obtain k' where k': "desc_key item = Inr k'" by auto
  from Cons.prems have rest: "\<forall>item\<in>set items. \<exists>k. desc_key item = Inr k" by simp
  show ?case
    using Cons.IH [OF rest, of "dict_set cache k' item"]
    by (simp add: k' map_of_dict_set find_append_case split: option.splits)
qed

section \<open>Loading the cache\<close>

lemma find_SomeD: "find P xs = Some x \<Longrightarrow> x \<in> set xs \<and> P x"
  by (induction xs) (auto split: if_splits)

lemma get_types_data_try_frame:
  "types_data_json (snd (get_types_data_try st)) = types_data_json st
   \<and> keywords_json (snd (get_types_data_try st)) = keywords_json st"
  by (simp add: get_types_data_try_def Let_def split: json_file.splits sum.splits prod.splits option.splits)

lemma get_types_data_frame:
  "types_data_json (snd (get_types_data st)) = types_data_json st
   \<and> keywords_json (snd (get_types_data st)) = keywords_json st"
  using get_types_data_try_frame [of st]
  by (cases "get_types_data_try st") (auto simp add: get_types_data_def split: sum.splits)

lemma get_types_data_try_cache:
  "types_data_json a = types_data_json b \<Longrightarrow> data_cache a = data_cache b \<Longrightarrow>
     data_cache (snd (get_types_data_try a)) = data_cache (snd (get_types_data_try b))"
  by (simp add: get_types_data_try_def Let_def split: json_file.splits sum.splits prod.splits option.splits)

lemma get_types_data_cache:
  "types_data_json a = types_data_json b \<Longrightarrow> data_cache a = data_cache b \<Longrightarrow>
     data_cache (snd (get_types_data a)) = data_cache (snd (get_types_data b))"
  using get_types_data_try_cache [of a b]
  by (cases "get_types_data_try a"; cases "get_types_data_try b")
     (auto simp add: get_types_data_def split: sum.splits)

lemma get_types_data_loaded: "data_cache st \<noteq> [] \<Longrightarrow> get_types_data st = (Inr (), st)"
  by (simp add: get_types_data_def)

lemma get_types_data_try_reads:
  "store_reads (snd (get_types_data_try st)) =
     store_reads st + (if types_data_json st = Missing then 0 else 1)"
  by (simp add: get_types_data_try_def Let_def split: json_file.splits sum.splits prod.splits option.splits)

lemma get_types_data_reads:
  "data_cache st = [] \<Longrightarrow>
     store_reads (snd (get_types_data st)) =
       store_reads st + (if types_data_json st = Missing then 0 else 1)"
  using get_types_data_try_reads [of st]
  by (cases "get_types_data_try st") (auto simp add: get_types_data_def split: sum.splits)

text \<open>
  C6. Calling \<open>get_types_data\<close> twice leaves the cache as one call does. The second
  call does not read the types store when the first call left the cache non-empty.
  When the first call left it empty and the store file exists, the second call reads
  the file again: the guard of the load is the emptiness of the cache.
\<close>

theorem get_types_data_twice:
  "data_cache (snd (get_types_data (snd (get_types_data st)))) = data_cache (snd (get_types_data st))
   \<and> (data_cache (snd (get_types_data st)) \<noteq> [] \<longrightarrow>
        store_reads (snd (get_types_data (snd (get_types_data st)))) =
          store_reads (snd (get_types_data st)))
   \<and> (data_cache (snd (get_types_data st)) = [] \<and> types_data_json st \<noteq> Missing \<longrightarrow>
        store_reads (snd (get_types_data (snd (get_types_data st)))) =
          store_reads (snd (get_types_data st)) + 1)"
proof (intro conjI impI)
  let ?st1 = "snd (get_types_data st)"
  show "data_cache (snd (get_types_data ?st1)) = data_cache ?st1"
  proof (cases "data_cache ?st1 = []")
    case False
    then show ?thesis by (simp add: get_types_data_loaded)
  next
    case True
    have "data_cache st = []"
    proof (rule ccontr)
      assume "data_cache st \<noteq> []"
      then have "?st1 = st" by (simp add: get_types_data_loaded)
      with True \<open>data_cache st \<noteq> []\<close> show False by simp
    qed
    with True have "data_cache ?st1 = data_cache st" by simp
    moreover have "types_data_json ?st1 = types_data_json st"
      using get_types_data_frame [of st] by simp
    ultimately show ?thesis
      using get_types_data_cache [of ?st1 st] by simp
  qed
next
  let ?st1 = "snd (get_types_data st)"
  assume "data_cache ?st1 \<noteq> []"
  then show "store_reads (snd (get_types_data ?st1)) = store_reads ?st1"
    by (simp add: get_types_data_loaded)
next
  let ?st1 = "snd (get_types_data st)"
  assume h: "data_cache ?st1 = [] \<and> types_data_json st \<noteq> Missing"
  moreover have "types_data_json ?st1 = types_data_json st"
    using get_types_data_frame [of st] by simp
  ultimately show "store_reads (snd (get_types_data ?st1)) = store_reads ?st1 + 1"
    using get_types_data_reads [of ?st1] by simp
qed

theorem get_types_data_twice_witness:
  "data_cache (snd (get_types_data exact_state)) \<noteq> []
   \<and> data_cache (snd (get_types_data (snd (get_types_data exact_state)))) =
       data_cache (snd (get_types_data exact_state))
   \<and> store_reads (snd (get_types_data exact_state)) = 1
   \<and> store_reads (snd (get_types_data (snd (get_types_data exact_state)))) = 1
   \<and> data_cache (snd (get_types_data untyped_state)) = []
   \<and> store_reads (snd (get_types_data (snd (get_types_data untyped_state)))) =
       store_reads (snd (get_types_data untyped_state)) + 1"
proof -
  have a: "data_cache (snd (get_types_data exact_state)) \<noteq> []"
    by (simp add: exact_state_def eval_defs)
  have b: "store_reads (snd (get_types_data exact_state)) = 1"
    by (simp add: exact_state_def eval_defs)
  have c: "data_cache (snd (get_types_data untyped_state)) = []"
    by (simp add: untyped_state_def eval_defs)
  have d: "types_data_json untyped_state \<noteq> Missing"
    by (simp add: untyped_state_def)
  from get_types_data_twice [of exact_state] get_types_data_twice [of untyped_state] a b c d
  show ?thesis by simp
qed

text \<open>
  The claim as the specification states it, that the second call never reads the
  store again, fails on a store none of whose records has both types.
\<close>

theorem get_types_data_rereads_counterexample:
  "data_cache (snd (get_types_data untyped_state)) = []
   \<and> store_reads (snd (get_types_data untyped_state)) = 1
   \<and> store_reads (snd (get_types_data (snd (get_types_data untyped_state)))) = 2"
  by (simp add: untyped_state_def eval_defs)

text \<open>
  C7. Loading into an empty cache. With the store file missing or not JSON the call
  returns and the cache stays empty. With a store that is a list of objects in which
  every record that has both types has a string \<^verbatim>\<open>desc\<close>, the call returns and the
  cache maps a key to the last record of the store that has both types and whose
  lowercased \<^verbatim>\<open>desc\<close> is the key: a record lacking \<^verbatim>\<open>main_type\<close> or \<^verbatim>\<open>sub_type\<close> is
  in no entry, every entry is filed under the lowercased \<^verbatim>\<open>desc\<close> of its record, and
  each key is there once.
\<close>

theorem get_types_data_load:
  assumes "data_cache st = []"
  shows
    "(types_data_json st = Missing \<or> types_data_json st = Malformed \<longrightarrow>
        fst (get_types_data st) = Inr () \<and> data_cache (snd (get_types_data st)) = [])
     \<and> (types_data_json st = Parsed (JArr records)
          \<and> (\<forall>item\<in>set records.
                (\<exists>b. has_types item = Inr b)
                \<and> (has_types item = Inr True \<longrightarrow> (\<exists>k. desc_key item = Inr k))) \<longrightarrow>
        fst (get_types_data st) = Inr ()
        \<and> (\<forall>k. map_of (data_cache (snd (get_types_data st))) k =
                 find (\<lambda>item. has_types item = Inr True \<and> desc_key item = Inr k) (rev records))
        \<and> (\<forall>p\<in>set (data_cache (snd (get_types_data st))).
              snd p \<in> set records \<and> has_types (snd p) = Inr True \<and> desc_key (snd p) = Inr (fst p))
        \<and> distinct (map fst (data_cache (snd (get_types_data st)))))"
proof (intro conjI impI)
  assume "types_data_json st = Missing \<or> types_data_json st = Malformed"
  then show "data_cache (snd (get_types_data st)) = []"
    using assms by (auto simp add: get_types_data_def get_types_data_try_def)
next
  assume h: "types_data_json st = Parsed (JArr records)
          \<and> (\<forall>item\<in>set records.
                (\<exists>b. has_types item = Inr b)
                \<and> (has_types item = Inr True \<longrightarrow> (\<exists>k. desc_key item = Inr k)))"
  let ?kept = "filter (\<lambda>item. has_types item = Inr True) records"
  have kept: "filter_exc has_types records = Inr ?kept"
    using h by (intro filter_exc_total) blast
  have keys: "\<forall>item\<in>set ?kept. \<exists>k. desc_key item = Inr k"
    using h by simp
  have cache: "data_cache (snd (get_types_data st)) = snd (cache_items ?kept [])"
    using assms h cache_items_total [OF keys, of "[]"]
    by (cases "cache_items ?kept []")
       (simp add: get_types_data_def get_types_data_try_def kept)
  show lookup: "\<forall>k. map_of (data_cache (snd (get_types_data st))) k =
      find (\<lambda>item. has_types item = Inr True \<and> desc_key item = Inr k) (rev records)"
  proof
    fix k
    have "map_of (snd (cache_items ?kept [])) k =
        find (\<lambda>item. desc_key item = Inr k) (rev ?kept)"
      by (simp add: cache_items_lookup [OF keys] split: option.splits)
    also have "\<dots> = find (\<lambda>item. has_types item = Inr True \<and> desc_key item = Inr k) (rev records)"
      by (simp add: rev_filter find_filter)
    finally show "map_of (data_cache (snd (get_types_data st))) k =
        find (\<lambda>item. has_types item = Inr True \<and> desc_key item = Inr k) (rev records)"
      by (simp add: cache)
  qed
  show dist: "distinct (map fst (data_cache (snd (get_types_data st))))"
    by (simp add: cache cache_items_distinct)
  show "\<forall>p\<in>set (data_cache (snd (get_types_data st))).
      snd p \<in> set records \<and> has_types (snd p) = Inr True \<and> desc_key (snd p) = Inr (fst p)"
  proof
    fix p assume "p \<in> set (data_cache (snd (get_types_data st)))"
    with dist have "map_of (data_cache (snd (get_types_data st))) (fst p) = Some (snd p)"
      by (cases p) simp
    with lookup have "find (\<lambda>item. has_types item = Inr True \<and> desc_key item = Inr (fst p))
        (rev records) = Some (snd p)"
      by simp
    then show "snd p \<in> set records \<and> has_types (snd p) = Inr True \<and> desc_key (snd p) = Inr (fst p)"
      using find_SomeD [of "\<lambda>item. has_types item = Inr True \<and> desc_key item = Inr (fst p)"
          "rev records" "snd p"]
      by simp
  qed
qed (simp_all add: get_types_data_returns)

theorem get_types_data_load_witness:
  "map_of (data_cache (snd (get_types_data (empty_state\<lparr>types_data_json := Parsed (JArr untyped_store)\<rparr>))))
       ''uber'' = Some (store_record ''UBER'' ''Travel'' ''Taxi'')
   \<and> map_of (data_cache (snd (get_types_data (empty_state\<lparr>types_data_json := Parsed (JArr untyped_store)\<rparr>))))
       ''atm'' = None
   \<and> map_of (data_cache (snd (get_types_data (empty_state\<lparr>types_data_json := Parsed (JArr untyped_store)\<rparr>))))
       ''gift'' = None
   \<and> data_cache (snd (get_types_data (empty_state\<lparr>types_data_json := Malformed\<rparr>))) = []
   \<and> data_cache (snd (get_types_data empty_state)) = []"
proof -
  let ?st = "empty_state\<lparr>types_data_json := Parsed (JArr untyped_store)\<rparr>"
  have cache: "data_cache ?st = []" by (simp add: empty_state_def)
  have store: "types_data_json ?st = Parsed (JArr untyped_store)" by simp
  have wf: "\<forall>item\<in>set untyped_store.
      (\<exists>b. has_types item = Inr b)
      \<and> (has_types item = Inr True \<longrightarrow> (\<exists>k. desc_key item = Inr k))"
    by (auto simp add: untyped_store_def store_record_def desc_key_def has_types_def)
  from get_types_data_load [OF cache, of untyped_store] store wf
  have lookup: "\<And>k. map_of (data_cache (snd (get_types_data ?st))) k =
      find (\<lambda>item. has_types item = Inr True \<and> desc_key item = Inr k) (rev untyped_store)"
    by blast
  have a: "map_of (data_cache (snd (get_types_data ?st))) ''uber'' =
      Some (store_record ''UBER'' ''Travel'' ''Taxi'')"
    unfolding lookup
    by (simp add: untyped_store_def store_record_def has_types_def desc_key_def str_lower_def lower_char_def)
  have b: "map_of (data_cache (snd (get_types_data ?st))) ''atm'' = None"
    unfolding lookup
    by (simp add: untyped_store_def store_record_def has_types_def desc_key_def str_lower_def lower_char_def)
  have c: "map_of (data_cache (snd (get_types_data ?st))) ''gift'' = None"
    unfolding lookup
    by (simp add: untyped_store_def store_record_def has_types_def desc_key_def str_lower_def lower_char_def)
  have cache2: "data_cache (empty_state\<lparr>types_data_json := Malformed\<rparr>) = []"
    by (simp add: empty_state_def)
  have d: "data_cache (snd (get_types_data (empty_state\<lparr>types_data_json := Malformed\<rparr>))) = []"
    using get_types_data_load [OF cache2] by simp
  have cache3: "data_cache empty_state = []"
    by (simp add: empty_state_def)
  have e: "data_cache (snd (get_types_data empty_state)) = []"
    using get_types_data_load [OF cache3] by (simp add: empty_state_def)
  from a b c d e show ?thesis by blast
qed

text \<open>
  Without the condition on \<^verbatim>\<open>desc\<close> the claim fails: a record with both types and
  no \<^verbatim>\<open>desc\<close> ends the loop with an exception, and the record after it, which has
  both types and a description, is filed under no key.
\<close>

theorem get_types_data_aborts_counterexample:
  "no_desc_store ! 1 = store_record ''Uber'' ''Travel'' ''Cab''
   \<and> has_types (store_record ''Uber'' ''Travel'' ''Cab'') = Inr True
   \<and> desc_key (store_record ''Uber'' ''Travel'' ''Cab'') = Inr ''uber''
   \<and> fst (get_types_data (empty_state\<lparr>types_data_json := Parsed (JArr no_desc_store)\<rparr>)) = Inr ()
   \<and> data_cache (snd (get_types_data (empty_state\<lparr>types_data_json := Parsed (JArr no_desc_store)\<rparr>))) = []"
  by (simp add: empty_state_def no_desc_store_def eval_defs)

section \<open>The reconciliation job\<close>

lemma desc_key_type_entry: "desc_key (type_entry row) = Inr (str_lower (desc row))"
  by (simp add: desc_key_def type_entry_def)

lemma map_exc_type_entries:
  "map_exc desc_key (map type_entry rows) = Inr (map (\<lambda>row. str_lower (desc row)) rows)"
  by (induction rows) (simp_all add: desc_key_type_entry)

lemma map_exc_append:
  "map_exc f xs = Inr a \<Longrightarrow> map_exc f ys = Inr b \<Longrightarrow> map_exc f (xs @ ys) = Inr (a @ b)"
  by (induction xs arbitrary: a) (auto split: sum.splits)

lemma filter_exc_type_entries:
  "filter_exc (\<lambda>item. case desc_key item of Inl e \<Rightarrow> Inl e | Inr d \<Rightarrow> Inr (d \<notin> set existing))
       (map type_entry rows) =
     Inr (map type_entry (filter (\<lambda>row. str_lower (desc row) \<notin> set existing) rows))"
  by (induction rows) (simp_all add: desc_key_type_entry)

lemma new_types_filtered:
  "filter_exc (\<lambda>item. case desc_key item of Inl e \<Rightarrow> Inl e | Inr d \<Rightarrow> Inr (d \<notin> set existing))
       (new_types_of rows) =
     Inr (map type_entry
            (filter (\<lambda>row. human_typed row \<and> str_lower (desc row) \<notin> set existing) rows))"
  by (simp add: new_types_of_def filter_exc_type_entries conj_commute)

lemma store_new_types_missing:
  "types_data_json st = Missing \<Longrightarrow>
     types_data_json (snd (store_new_types new_types st)) = Parsed (JArr new_types)"
  by (simp add: store_new_types_def)

lemma store_new_types_appends:
  "types_data_json st = Parsed (JArr records) \<Longrightarrow> map_exc desc_key records = Inr existing \<Longrightarrow>
     types_data_json (snd (store_new_types (new_types_of rows) st)) =
       Parsed (JArr (records @ map type_entry
          (filter (\<lambda>row. human_typed row \<and> str_lower (desc row) \<notin> set existing) rows)))"
  by (simp add: store_new_types_def new_types_filtered)

lemma store_new_types_raises:
  "fst (store_new_types new_types st) = Inl e \<Longrightarrow>
     types_data_json (snd (store_new_types new_types st)) = types_data_json st"
  by (auto simp add: store_new_types_def Let_def
           split: json_file.splits sum.splits json.splits)

lemma store_new_types_cases:
  "types_data_json st = Missing
   \<or> (\<exists>records existing. types_data_json st = Parsed (JArr records)
         \<and> map_exc desc_key records = Inr existing)
   \<or> (\<exists>e. fst (store_new_types (new_types_of rows) st) = Inl e)"
proof (cases "types_data_json st")
  case Missing
  then show ?thesis by simp
next
  case Malformed
  then show ?thesis by (simp add: store_new_types_def)
next
  case (Parsed j)
  show ?thesis
  proof (cases "\<exists>records. j = JArr records")
    case True
    then obtain records where j: "j = JArr records" by blast
    show ?thesis
    proof (cases "map_exc desc_key records")
      case (Inl e)
      then show ?thesis by (simp add: store_new_types_def Parsed j)
    next
      case (Inr existing)
      then show ?thesis by (simp add: Parsed j)
    qed
  next
    case False
    then have "\<exists>e. fst (store_new_types (new_types_of rows) st) = Inl e"
      by (cases j) (auto simp add: store_new_types_def Parsed Let_def split: sum.splits)
    then show ?thesis by blast
  qed
qed

lemma store_new_types_file_only:
  "types_data_json a = types_data_json b \<Longrightarrow>
     types_data_json (snd (store_new_types new_types a)) =
       types_data_json (snd (store_new_types new_types b))
     \<and> (\<forall>e. fst (store_new_types new_types a) = Inl e \<longleftrightarrow> fst (store_new_types new_types b) = Inl e)"
  by (auto simp add: store_new_types_def Let_def split: json_file.splits sum.splits json.splits)

lemma refresh_file:
  "types_data_json (snd (refresh_types_data (FetchRows rows) notify st)) =
     types_data_json (snd (store_new_types (new_types_of rows) st))"
  by (cases "store_new_types (new_types_of rows) st")
     (auto simp add: refresh_types_data_def refresh_types_data_try_def
           split: sum.splits prod.splits option.splits)

lemma refresh_file_no_rows:
  "\<forall>rows. expense_list \<noteq> FetchRows rows \<Longrightarrow>
     snd (refresh_types_data expense_list notify st) = st"
  by (cases expense_list) (simp_all add: refresh_types_data_def refresh_types_data_try_def)

lemma nothing_new:
  "filter (\<lambda>row. human_typed row \<and>
       str_lower (desc row) \<notin> set (existing @ map (\<lambda>row. str_lower (desc row))
          (filter (\<lambda>row. human_typed row \<and> str_lower (desc row) \<notin> set existing) rows))) rows = []"
  by (auto simp add: filter_empty_conv)

lemma store_new_types_again:
  assumes "types_data_json st1 = types_data_json (snd (store_new_types (new_types_of rows) st))"
  shows "types_data_json (snd (store_new_types (new_types_of rows) st1)) = types_data_json st1"
proof -
  let ?key = "\<lambda>row. str_lower (desc row)"
  from store_new_types_cases [of st rows] consider
      (missing) "types_data_json st = Missing"
    | (list) records existing where "types_data_json st = Parsed (JArr records)"
        and "map_exc desc_key records = Inr existing"
    | (raises) e where "fst (store_new_types (new_types_of rows) st) = Inl e"
    by blast
  then show ?thesis
  proof cases
    case missing
    then have file1: "types_data_json st1 = Parsed (JArr (new_types_of rows))"
      using assms by (simp add: store_new_types_missing)
    have keys: "map_exc desc_key (new_types_of rows) = Inr (map ?key (filter human_typed rows))"
      by (simp add: new_types_of_def map_exc_type_entries)
    have "filter (\<lambda>row. human_typed row \<and> ?key row \<notin> set (map ?key (filter human_typed rows))) rows = []"
      by (auto simp add: filter_empty_conv)
    with store_new_types_appends [OF file1 keys, of rows] file1 show ?thesis by simp
  next
    case list
    let ?sel = "filter (\<lambda>row. human_typed row \<and> ?key row \<notin> set existing) rows"
    have file1: "types_data_json st1 = Parsed (JArr (records @ map type_entry ?sel))"
      using assms store_new_types_appends [OF list, of rows] by simp
    have keys: "map_exc desc_key (records @ map type_entry ?sel) = Inr (existing @ map ?key ?sel)"
      using list(2) map_exc_type_entries [of ?sel] by (rule map_exc_append)
    have "types_data_json (snd (store_new_types (new_types_of rows) st1)) =
        Parsed (JArr ((records @ map type_entry ?sel) @ map type_entry
          (filter (\<lambda>row. human_typed row \<and> ?key row \<notin> set (existing @ map ?key ?sel)) rows)))"
      by (rule store_new_types_appends [OF file1 keys])
    also have "\<dots> = Parsed (JArr (records @ map type_entry ?sel))"
      by (simp only: nothing_new list.map append_Nil2)
    finally show ?thesis by (simp only: file1)
  next
    case raises
    then have same: "types_data_json st1 = types_data_json st"
      using assms by (simp add: store_new_types_raises)
    with store_new_types_file_only [of st1 st "new_types_of rows"] assms show ?thesis by simp
  qed
qed

text \<open>
  C8. With rows fetched and a store that is a list of objects each with a string
  \<^verbatim>\<open>desc\<close>, \<open>refresh_types_data\<close> leaves in the store its records followed by one
  record for each row, in order, that has both types non-empty, is not
  bot-identified and whose lowercased description is not the lowercased description
  of a stored record; with the store file missing it writes one record for each row
  that has both types and is not bot-identified. Running it a second time on the
  same fetched data leaves the store as the first run left it, from every state.
\<close>

theorem refresh_types_data_appends:
  "(types_data_json st = Parsed (JArr records) \<and> map_exc desc_key records = Inr existing_descs \<longrightarrow>
      types_data_json (snd (refresh_types_data (FetchRows rows) notify st)) =
        Parsed (JArr (records @ map type_entry
          (filter (\<lambda>row. human_typed row \<and> str_lower (desc row) \<notin> set existing_descs) rows))))
   \<and> (types_data_json st = Missing \<longrightarrow>
      types_data_json (snd (refresh_types_data (FetchRows rows) notify st)) =
        Parsed (JArr (map type_entry (filter human_typed rows))))
   \<and> types_data_json (snd (refresh_types_data expense_list notify'
        (snd (refresh_types_data expense_list notify st)))) =
      types_data_json (snd (refresh_types_data expense_list notify st))"
proof (intro conjI impI)
  assume "types_data_json st = Parsed (JArr records) \<and> map_exc desc_key records = Inr existing_descs"
  then show "types_data_json (snd (refresh_types_data (FetchRows rows) notify st)) =
        Parsed (JArr (records @ map type_entry
          (filter (\<lambda>row. human_typed row \<and> str_lower (desc row) \<notin> set existing_descs) rows)))"
    by (simp add: refresh_file store_new_types_appends)
next
  assume "types_data_json st = Missing"
  then show "types_data_json (snd (refresh_types_data (FetchRows rows) notify st)) =
        Parsed (JArr (map type_entry (filter human_typed rows)))"
    by (simp add: refresh_file store_new_types_missing new_types_of_def)
next
  show "types_data_json (snd (refresh_types_data expense_list notify'
        (snd (refresh_types_data expense_list notify st)))) =
      types_data_json (snd (refresh_types_data expense_list notify st))"
  proof (cases "\<exists>rows. expense_list = FetchRows rows")
    case True
    then obtain rows where rows: "expense_list = FetchRows rows" by blast
    show ?thesis
      unfolding rows refresh_file [of rows notify' "snd (refresh_types_data (FetchRows rows) notify st)"]
      by (rule store_new_types_again) (rule refresh_file)
  next
    case False
    then have "\<forall>rows. expense_list \<noteq> FetchRows rows" by blast
    then show ?thesis by (simp add: refresh_file_no_rows)
  qed
qed

theorem refresh_types_data_appends_witness:
  "types_data_json (snd (refresh_types_data (FetchRows example_rows) None refresh_state)) =
     Parsed (JArr [store_record ''Uber'' ''Travel'' ''Cab'', store_record ''Taxi'' ''Travel'' ''Cab''])
   \<and> types_data_json (snd (refresh_types_data (FetchRows example_rows) None
        (refresh_state\<lparr>types_data_json := Missing\<rparr>))) =
     Parsed (JArr [store_record ''Taxi'' ''Travel'' ''Cab'', store_record ''UBER'' ''Travel'' ''Taxi''])
   \<and> types_data_json (snd (refresh_types_data (FetchRows example_rows) None
        (snd (refresh_types_data (FetchRows example_rows) None refresh_state)))) =
     Parsed (JArr [store_record ''Uber'' ''Travel'' ''Cab'', store_record ''Taxi'' ''Travel'' ''Cab''])"
proof -
  have store: "types_data_json refresh_state = Parsed (JArr [store_record ''Uber'' ''Travel'' ''Cab''])"
    by (simp add: refresh_state_def)
  have keys: "map_exc desc_key [store_record ''Uber'' ''Travel'' ''Cab''] = Inr [''uber'']"
    by (simp add: desc_key_def store_record_def str_lower_def lower_char_def)
  have missing: "types_data_json (refresh_state\<lparr>types_data_json := Missing\<rparr>) = Missing"
    by simp
  note t = refresh_types_data_appends [of refresh_state "[store_record ''Uber'' ''Travel'' ''Cab'']"
      "[''uber'']" example_rows None "FetchRows example_rows" None]
  note t2 = refresh_types_data_appends [of "refresh_state\<lparr>types_data_json := Missing\<rparr>" "[]" "[]"
      example_rows None "FetchRows example_rows" None]
  have a: "types_data_json (snd (refresh_types_data (FetchRows example_rows) None refresh_state)) =
     Parsed (JArr [store_record ''Uber'' ''Travel'' ''Cab'', store_record ''Taxi'' ''Travel'' ''Cab''])"
    using t store keys
    by (simp add: example_rows_def expense_row_def human_typed_def type_entry_def store_record_def
          str_lower_def lower_char_def)
  have b: "types_data_json (snd (refresh_types_data (FetchRows example_rows) None
        (refresh_state\<lparr>types_data_json := Missing\<rparr>))) =
     Parsed (JArr [store_record ''Taxi'' ''Travel'' ''Cab'', store_record ''UBER'' ''Travel'' ''Taxi''])"
    using t2 missing
    by (simp add: example_rows_def expense_row_def human_typed_def type_entry_def store_record_def)
  from t a b show ?thesis by simp
qed

text \<open>
  Without the condition on the stored records the claim fails: a stored record
  without \<^verbatim>\<open>desc\<close> makes the job raise before it writes, so a row typed by hand
  whose description is not in the store is not appended, and the status is
  \<^verbatim>\<open>"error"\<close>.
\<close>

theorem refresh_types_data_raises_counterexample:
  "example_rows ! 0 = expense_row 8 ''Taxi'' (Some ''Travel'') (Some ''Cab'') ''No''
   \<and> human_typed (expense_row 8 ''Taxi'' (Some ''Travel'') (Some ''Cab'') ''No'')
   \<and> str_lower ''Taxi'' = ''taxi''
   \<and> desc_key (no_desc_store ! 0) = Inl AttributeError
   \<and> desc_key (no_desc_store ! 1) = Inr ''uber''
   \<and> types_data_json (snd (refresh_types_data (FetchRows example_rows) None
        (refresh_state\<lparr>types_data_json := Parsed (JArr no_desc_store)\<rparr>))) =
       Parsed (JArr no_desc_store)
   \<and> fst (refresh_types_data (FetchRows example_rows) None
        (refresh_state\<lparr>types_data_json := Parsed (JArr no_desc_store)\<rparr>)) =
       Inr \<lparr>status = ''error'', message = Str_of AttributeError\<rparr>"
  by (simp add: refresh_defs no_desc_store_def eval_defs)

lemma store_new_types_cache:
  "data_cache (snd (store_new_types new_types st)) = data_cache st"
  by (auto simp add: store_new_types_def Let_def split: json_file.splits sum.splits json.splits)

text \<open>
  C9. Every key of the cache before \<open>refresh_types_data\<close> is a key of the cache after
  it: the reload stores into the dictionary it finds and removes nothing, so a key
  whose record is no longer in the store stays.
\<close>

theorem refresh_types_data_keeps_keys:
  "fst ` set (data_cache st) \<subseteq>
     fst ` set (data_cache (snd (refresh_types_data expense_list notify st)))"
proof (cases "\<exists>rows. expense_list = FetchRows rows")
  case False
  then have "\<forall>rows. expense_list \<noteq> FetchRows rows" by blast
  then show ?thesis by (simp add: refresh_file_no_rows)
next
  case True
  then obtain rows where rows: "expense_list = FetchRows rows" by blast
  obtain r st1 where s: "store_new_types (new_types_of rows) st = (r, st1)"
    by (cases "store_new_types (new_types_of rows) st")
  have c1: "data_cache st1 = data_cache st"
    using store_new_types_cache [of "new_types_of rows" st] by (simp add: s)
  show ?thesis
  proof (cases r)
    case (Inl e)
    then show ?thesis
      by (simp add: rows refresh_types_data_def refresh_types_data_try_def s c1)
  next
    case (Inr json_file)
    show ?thesis
    proof (cases "filter_exc has_types json_file")
      case (Inl e)
      then show ?thesis
        by (simp add: rows refresh_types_data_def refresh_types_data_try_def s Inr c1)
    next
      case kept: (Inr kept)
      have "data_cache (snd (refresh_types_data expense_list notify st)) =
          snd (cache_items kept (data_cache st))"
        by (cases "cache_items kept (data_cache st)")
           (simp add: rows refresh_types_data_def refresh_types_data_try_def s Inr kept c1
                 split: option.splits)
      then show ?thesis by (simp add: cache_items_keys)
    qed
  qed
qed

theorem refresh_types_data_keeps_keys_witness:
  "''old key'' \<in> fst ` set (data_cache (snd (refresh_types_data (FetchRows example_rows) None refresh_state)))
   \<and> map_exc desc_key [store_record ''Uber'' ''Travel'' ''Cab'', store_record ''Taxi'' ''Travel'' ''Cab''] =
       Inr [''uber'', ''taxi'']
   \<and> types_data_json (snd (refresh_types_data (FetchRows example_rows) None refresh_state)) =
       Parsed (JArr [store_record ''Uber'' ''Travel'' ''Cab'', store_record ''Taxi'' ''Travel'' ''Cab''])"
proof -
  have "''old key'' \<in> fst ` set (data_cache refresh_state)"
    by (simp add: refresh_state_def)
  with refresh_types_data_keeps_keys [of refresh_state "FetchRows example_rows" None]
  have a: "''old key'' \<in> fst ` set (data_cache (snd (refresh_types_data (FetchRows example_rows) None refresh_state)))"
    by blast
  have b: "map_exc desc_key [store_record ''Uber'' ''Travel'' ''Cab'', store_record ''Taxi'' ''Travel'' ''Cab''] =
       Inr [''uber'', ''taxi'']"
    by (simp add: desc_key_def store_record_def str_lower_def lower_char_def)
  have c: "types_data_json (snd (refresh_types_data (FetchRows example_rows) None refresh_state)) =
       Parsed (JArr [store_record ''Uber'' ''Travel'' ''Cab'', store_record ''Taxi'' ''Travel'' ''Cab''])"
    by (simp add: refresh_defs store_record_def desc_key_def has_types_def str_lower_def lower_char_def)
  from a b c show ?thesis by blast
qed

text \<open>
  C10. When the fetch gives an error string, \<open>refresh_types_data\<close> returns the status
  \<^verbatim>\<open>"error"\<close> with that string as message, and the state (store file and cache) is
  the one it was called in.
\<close>

theorem refresh_types_data_fetch_error:
  "refresh_types_data (FetchError msg) notify st =
     (Inr \<lparr>status = ''error'', message = Message msg\<rparr>, st)"
  by (simp add: refresh_types_data_def refresh_types_data_try_def)

theorem refresh_types_data_fetch_error_witness:
  "refresh_types_data (FetchError ''Error! timed out'') None refresh_state =
     (Inr \<lparr>status = ''error'', message = Message ''Error! timed out''\<rparr>, refresh_state)
   \<and> types_data_json refresh_state = Parsed (JArr [store_record ''Uber'' ''Travel'' ''Cab''])
   \<and> data_cache refresh_state = [(''old key'', store_record ''Old key'' ''Misc'' ''Other'')]"
  using refresh_types_data_fetch_error [of "''Error! timed out''" None refresh_state]
  by (simp add: refresh_state_def)

end
